theory Spec2Isabelle
  imports Complex_Main "HOL-Library.Char_ord" "HOL-Library.List_Lexorder"
begin

chapter \<open>The transit map: the embedding\<close>

section \<open>JavaScript string helpers\<close>

text \<open>
  \<^verbatim>\<open>String.prototype.split\<close> with a one-character separator: the pieces between
  the separators, in order. The empty string splits into one empty piece, so the
  result is never the empty array.
\<close>

fun split_on :: "'a \<Rightarrow> 'a list \<Rightarrow> 'a list list" where
  "split_on sep [] = [[]]"
| "split_on sep (c # cs) =
     (if c = sep then [] # split_on sep cs
      else (case split_on sep cs of
              [] \<Rightarrow> [[c]]
            | w # ws \<Rightarrow> (c # w) # ws))"

text \<open>
  \<^verbatim>\<open>Array.prototype.join\<close>: the elements with the separator between each two; the
  empty array joins to the empty string.
\<close>

fun join_with :: "'a \<Rightarrow> 'a list list \<Rightarrow> 'a list" where
  "join_with sep [] = []"
| "join_with sep [w] = w"
| "join_with sep (w # v # ws) = w @ sep # join_with sep (v # ws)"

section \<open>lib/types.ts\<close>

text \<open>
  \<^verbatim>\<open>type TransitType = 'metro' | 'rail' | 'bus'\<close>. The constructors are capitalised:
  \<^verbatim>\<open>metro\<close>, \<^verbatim>\<open>rail\<close> and \<^verbatim>\<open>bus\<close> are the fields of \<^verbatim>\<open>FilterState\<close>.
\<close>

datatype TransitType = Metro | Rail | Bus

text \<open>
  \<^verbatim>\<open>AgencyCode\<close> is a union of three string literals that TypeScript erases; the
  functions below receive any string at run time (and have a \<^verbatim>\<open>default\<close> branch
  for it), so an agency code is a string here.
\<close>

type_synonym AgencyCode = string

definition agency_codes :: "AgencyCode list" where
  "agency_codes = [''HMRL'', ''MMTS'', ''TGSRTC'']"

text \<open>
  The GeoJSON shapes. A number is a \<open>real\<close>: the code only moves coordinates
  around. The data files are cast to these types without a check
  (\<^verbatim>\<open>response.json()\<close>), and \<^verbatim>\<open>RoutePolyline\<close> guards against a missing geometry
  and missing coordinates, so both can be absent in a route feature.
\<close>

record GeoJSONPoint =
  coordinates :: "real \<times> real"

record GeoJSONLineString =
  coordinates :: "(real \<times> real) list option"

record ('g, 'p) GeoJSONFeature =
  geometry :: 'g
  properties :: 'p

text \<open>The optional fields of the two property records are read nowhere and left out.\<close>

record StopProperties =
  stop_id :: string
  name :: string
  agency :: AgencyCode
  transit_type :: TransitType
  routes :: "string list"
  route_count :: nat
  first_time :: string
  last_time :: string

record RouteProperties =
  route_id :: string
  name :: string
  short_name :: string
  long_name :: string
  route_type :: nat
  type_name :: string
  agency :: AgencyCode
  color :: string
  text_color :: string
  stops :: "string list"
  stop_count :: nat

type_synonym StopFeature = "(GeoJSONPoint, StopProperties) GeoJSONFeature"
type_synonym RouteFeature = "(GeoJSONLineString option, RouteProperties) GeoJSONFeature"

record RouteStopInfo =
  stop_id :: string
  name :: string
  seq :: int

record TimetableEntry =
  weekday :: "string list"
  weekend :: "string list"

text \<open>
  A \<^verbatim>\<open>Record<string, T>\<close> read from JSON is a list of key and value pairs, looked
  up with \<open>map_of\<close>. A feature collection is the list of its features.
\<close>

type_synonym StopToRoutesMap = "(string \<times> string list) list"
type_synonym RouteToStopsMap = "(string \<times> RouteStopInfo list) list"
type_synonym RouteTimetable = "(string \<times> TimetableEntry) list"
type_synonym TimetableData = "(string \<times> RouteTimetable) list"

text \<open>
  \<^verbatim>\<open>TransitData\<close>, the six artifacts. No function below looks into the metadata,
  which is a type parameter.
\<close>

record 'm TransitData =
  stops :: "StopFeature list"
  routes :: "RouteFeature list"
  stopToRoutes :: StopToRoutesMap
  routeToStops :: RouteToStopsMap
  timetable :: TimetableData
  metadata :: 'm

record FilterState =
  metro :: bool
  rail :: bool
  bus :: bool

record SelectionState =
  selectedStop :: "string option"
  selectedRoute :: "string option"
  highlightedRoutes :: "string list"

record RouteLineOptions =
  color :: string
  weight :: real
  opacity :: real
  dashArray :: "string option"

section \<open>lib/utils.ts\<close>

subsection \<open>Transit type styling\<close>

definition TRANSIT_COLORS :: "TransitType \<Rightarrow> string" where
  "TRANSIT_COLORS t = (case t of Metro \<Rightarrow> ''#E91E63'' | Rail \<Rightarrow> ''#9C27B0'' | Bus \<Rightarrow> ''#FFC107'')"

definition TRANSIT_ICONS :: "TransitType \<Rightarrow> string" where
  "TRANSIT_ICONS t = (case t of Metro \<Rightarrow> ''metro'' | Rail \<Rightarrow> ''train'' | Bus \<Rightarrow> ''airport_shuttle'')"

text \<open>
  \<^verbatim>\<open>properties.type_name as TransitType\<close> casts any string; the switches over a
  transit type have a \<^verbatim>\<open>default\<close> branch for a value that is none of the three,
  which is \<open>None\<close> here.
\<close>

definition as_TransitType :: "string \<Rightarrow> TransitType option" where
  "as_TransitType s =
     (if s = ''metro'' then Some Metro
      else if s = ''rail'' then Some Rail
      else if s = ''bus'' then Some Bus
      else None)"

text \<open>\<^verbatim>\<open>color || fallback\<close>: an absent or empty colour is falsy.\<close>

definition or_else :: "string option \<Rightarrow> string \<Rightarrow> string" where
  "or_else c fallback = (case c of None \<Rightarrow> fallback | Some v \<Rightarrow> if v = [] then fallback else v)"

definition getRouteLineOptions :: "TransitType option \<Rightarrow> string option \<Rightarrow> RouteLineOptions" where
  "getRouteLineOptions transitType c =
     (case transitType of
        Some Metro \<Rightarrow>
          \<lparr>color = or_else c (TRANSIT_COLORS Metro), weight = 5, opacity = 9 / 10, dashArray = None\<rparr>
      | Some Rail \<Rightarrow>
          \<lparr>color = TRANSIT_COLORS Rail, weight = 4, opacity = 8 / 10, dashArray = Some ''10, 5''\<rparr>
      | Some Bus \<Rightarrow>
          \<lparr>color = TRANSIT_COLORS Bus, weight = 2, opacity = 6 / 10, dashArray = None\<rparr>
      | None \<Rightarrow>
          \<lparr>color = or_else c ''#888888'', weight = 3, opacity = 7 / 10, dashArray = None\<rparr>)"

subsection \<open>Agency helpers\<close>

fun getAgencyTransitType :: "AgencyCode \<Rightarrow> TransitType" where
  "getAgencyTransitType code =
     (if code = ''HMRL'' then Metro
      else if code = ''MMTS'' then Rail
      else if code = ''TGSRTC'' then Bus
      else Bus)"

subsection \<open>Time formatting\<close>

text \<open>\<^verbatim>\<open>!time\<close> holds of the empty string only (the parameter is a string).\<close>

definition formatTime :: "string \<Rightarrow> string" where
  "formatTime time = (if time = [] then ''--:--'' else time)"

definition formatTimeRange :: "string \<Rightarrow> string \<Rightarrow> string" where
  "formatTimeRange first_t last_t =
     (if first_t = [] \<or> last_t = [] then ''Schedule not available''
      else formatTime first_t @ '' - '' @ formatTime last_t)"

subsection \<open>ID helpers\<close>

record ParsedId =
  agency :: AgencyCode
  originalId :: string

text \<open>
  \<^verbatim>\<open>const [agency, ...rest] = prefixedId.split('_')\<close>. Destructuring an empty array
  would leave \<^verbatim>\<open>agency\<close> undefined; \<open>split_on\<close> never returns one
  (\<open>split_on_not_Nil\<close> below), so that branch of the model is never taken.
\<close>

definition parseStopId :: "string \<Rightarrow> ParsedId" where
  "parseStopId prefixedId =
     (case split_on CHR ''_'' prefixedId of
        [] \<Rightarrow> \<lparr>ParsedId.agency = [], originalId = []\<rparr>
      | agency' # rest \<Rightarrow> \<lparr>ParsedId.agency = agency', originalId = join_with CHR ''_'' rest\<rparr>)"

definition parseRouteId :: "string \<Rightarrow> ParsedId" where
  "parseRouteId prefixedId =
     (case split_on CHR ''_'' prefixedId of
        [] \<Rightarrow> \<lparr>ParsedId.agency = [], originalId = []\<rparr>
      | agency' # rest \<Rightarrow> \<lparr>ParsedId.agency = agency', originalId = join_with CHR ''_'' rest\<rparr>)"

text \<open>
  Modelled from the spec: the Identifier Namespacer of the preprocessing pipeline (its
  Python is not among the sources), "pure function
  \<^verbatim>\<open>id \<mapsto> agency_code + "_" + id\<close>".
\<close>

definition namespace_id :: "AgencyCode \<Rightarrow> string \<Rightarrow> string" where
  "namespace_id agency_code ident = agency_code @ ''_'' @ ident"

subsection \<open>Data path helpers\<close>

definition getDataPath :: "string \<Rightarrow> string" where
  "getDataPath filename = ''/data/'' @ filename"

section \<open>lib/dataLoader.ts\<close>

text \<open>
  What the server answers to the \<^verbatim>\<open>fetch\<close> of one data file: the request fails
  (\<^verbatim>\<open>fetch\<close> rejects), or a response arrives with its \<^verbatim>\<open>ok\<close> flag, its status
  text and its body, which \<^verbatim>\<open>response.json()\<close> parses (\<open>None\<close>: the body is not
  JSON and the parse rejects).
\<close>

datatype 'a Response = RequestFailed | HttpResponse bool string "'a option"

datatype js_error = TypeError | SyntaxError | Error string

definition fetchJson :: "string \<Rightarrow> (string \<Rightarrow> 'a Response) \<Rightarrow> js_error + 'a" where
  "fetchJson filename server =
     (case server (getDataPath filename) of
        RequestFailed \<Rightarrow> Inl TypeError
      | HttpResponse ok statusText body \<Rightarrow>
          if \<not> ok then Inl (Error (''Failed to fetch '' @ filename @ '': '' @ statusText))
          else (case body of None \<Rightarrow> Inl SyntaxError | Some v \<Rightarrow> Inr v))"

text \<open>
  The data directory as the loader sees it: for each of the six artifact types, what
  the server answers at a path. (\<^verbatim>\<open>fetchJson<T>\<close> casts the parsed body to
  \<^verbatim>\<open>T\<close>; the body of each request has the type its call site names.)
\<close>

record 'm DataServer =
  stops_at :: "string \<Rightarrow> StopFeature list Response"
  routes_at :: "string \<Rightarrow> RouteFeature list Response"
  stopToRoutes_at :: "string \<Rightarrow> StopToRoutesMap Response"
  routeToStops_at :: "string \<Rightarrow> RouteToStopsMap Response"
  timetable_at :: "string \<Rightarrow> TimetableData Response"
  metadata_at :: "string \<Rightarrow> 'm Response"

text \<open>
  The module-level variable \<^verbatim>\<open>let cachedData: TransitData | null = null\<close> is the
  state of the module; every exported function takes it and the ones that assign it
  return it updated.
\<close>

record 'm Module =
  cachedData :: "'m TransitData option"

definition module_init :: "'m Module" where
  "module_init = \<lparr>cachedData = None\<rparr>"

text \<open>
  \<^verbatim>\<open>loadTransitData\<close>. \<^verbatim>\<open>Promise.all\<close> rejects as soon as one of the six requests
  rejects; when several reject, the model reports the first in the order of the
  array. On a rejection the assignment to \<^verbatim>\<open>cachedData\<close> is not reached. Calls are
  sequential here: two calls in flight at once are not modelled.
\<close>

definition loadTransitData ::
  "'m DataServer \<Rightarrow> 'm Module \<Rightarrow> (js_error + 'm TransitData) \<times> 'm Module" where
  "loadTransitData server m =
     (case cachedData m of
        Some d \<Rightarrow> (Inr d, m)
      | None \<Rightarrow>
      (case fetchJson ''stops.geojson'' (stops_at server) of
        Inl e \<Rightarrow> (Inl e, m)
      | Inr v1 \<Rightarrow>
      (case fetchJson ''routes.geojson'' (routes_at server) of
        Inl e \<Rightarrow> (Inl e, m)
      | Inr v2 \<Rightarrow>
      (case fetchJson ''stop_to_routes.json'' (stopToRoutes_at server) of
        Inl e \<Rightarrow> (Inl e, m)
      | Inr v3 \<Rightarrow>
      (case fetchJson ''route_to_stops.json'' (routeToStops_at server) of
        Inl e \<Rightarrow> (Inl e, m)
      | Inr v4 \<Rightarrow>
      (case fetchJson ''timetable.json'' (timetable_at server) of
        Inl e \<Rightarrow> (Inl e, m)
      | Inr v5 \<Rightarrow>
      (case fetchJson ''metadata.json'' (metadata_at server) of
        Inl e \<Rightarrow> (Inl e, m)
      | Inr v6 \<Rightarrow>
          (let d = \<lparr>stops = v1, routes = v2, stopToRoutes = v3, routeToStops = v4,
                     timetable = v5, metadata = v6\<rparr>
           in (Inr d, m\<lparr>cachedData := Some d\<rparr>)))))))))"

definition loadStopsOnly :: "'m DataServer \<Rightarrow> js_error + StopFeature list" where
  "loadStopsOnly server = fetchJson ''stops.geojson'' (stops_at server)"

definition loadRoutesOnly :: "'m DataServer \<Rightarrow> js_error + RouteFeature list" where
  "loadRoutesOnly server = fetchJson ''routes.geojson'' (routes_at server)"

definition loadMetadata :: "'m DataServer \<Rightarrow> js_error + 'm" where
  "loadMetadata server = fetchJson ''metadata.json'' (metadata_at server)"

definition clearCache :: "'m Module \<Rightarrow> 'm Module" where
  "clearCache m = m\<lparr>cachedData := None\<rparr>"

definition isDataLoaded :: "'m Module \<Rightarrow> bool" where
  "isDataLoaded m = (cachedData m \<noteq> None)"

definition getCachedData :: "'m Module \<Rightarrow> 'm TransitData option" where
  "getCachedData m = cachedData m"

text \<open>The exported functions of the module as calls, and what a call leaves in the module.\<close>

datatype 'm LoaderCall =
    LoadTransitData "'m DataServer"
  | LoadStopsOnly "'m DataServer"
  | LoadRoutesOnly "'m DataServer"
  | LoadMetadata "'m DataServer"
  | ClearCache
  | IsDataLoaded
  | GetCachedData

fun after_call :: "'m LoaderCall \<Rightarrow> 'm Module \<Rightarrow> 'm Module" where
  "after_call (LoadTransitData server) m = snd (loadTransitData server m)"
| "after_call ClearCache m = clearCache m"
| "after_call (LoadStopsOnly server) m = m"
| "after_call (LoadRoutesOnly server) m = m"
| "after_call (LoadMetadata server) m = m"
| "after_call IsDataLoaded m = m"
| "after_call GetCachedData m = m"

section \<open>context/TransitContext.tsx\<close>

text \<open>
  A JavaScript \<^verbatim>\<open>Set<string>\<close> is read through \<^verbatim>\<open>has\<close> and \<^verbatim>\<open>size\<close> only (its
  insertion order is never observed), so it is a set; \<^verbatim>\<open>size === 0\<close> is emptiness.
\<close>

record 'm TransitState =
  data :: "'m TransitData option"
  loading :: bool
  error :: "string option"
  filters :: FilterState
  selection :: SelectionState
  sidebarOpen :: bool
  visibleRoutes :: "string set"

datatype 'm TransitAction =
    SET_DATA "'m TransitData"
  | SET_LOADING bool
  | SET_ERROR string
  | TOGGLE_FILTER TransitType
  | SET_FILTERS FilterState
  | SELECT_STOP "string option"
  | SELECT_ROUTE "string option"
  | SET_HIGHLIGHTED_ROUTES "string list"
  | TOGGLE_SIDEBAR
  | OPEN_SIDEBAR
  | TOGGLE_ROUTE_VISIBILITY string
  | SET_VISIBLE_ROUTES "string set"
  | CLEAR_SELECTION

definition initialState :: "'m TransitState" where
  "initialState =
     \<lparr>data = None, loading = True, error = None,
      filters = \<lparr>metro = True, rail = True, bus = True\<rparr>,
      selection = \<lparr>selectedStop = None, selectedRoute = None, highlightedRoutes = []\<rparr>,
      sidebarOpen = True,
      visibleRoutes = {}\<rparr>"

text \<open>\<^verbatim>\<open>action.payload\<close> of type \<^verbatim>\<open>string | null\<close> as a condition: null and the empty string are falsy.\<close>

definition truthy :: "string option \<Rightarrow> bool" where
  "truthy p = (case p of None \<Rightarrow> False | Some s \<Rightarrow> s \<noteq> [])"

text \<open>\<^verbatim>\<open>{...state.filters, [action.payload]: !state.filters[action.payload]}\<close>\<close>

fun toggle_filter :: "FilterState \<Rightarrow> TransitType \<Rightarrow> FilterState" where
  "toggle_filter f Metro = f\<lparr>metro := \<not> metro f\<rparr>"
| "toggle_filter f Rail = f\<lparr>rail := \<not> rail f\<rparr>"
| "toggle_filter f Bus = f\<lparr>bus := \<not> bus f\<rparr>"

text \<open>
  \<^verbatim>\<open>action.payload && state.data ? state.data.stopToRoutes[action.payload] || [] : []\<close>;
  an array, also an empty one, is truthy, so \<^verbatim>\<open>|| []\<close> replaces a missing key only.
\<close>

definition stopRoutes_of :: "'m TransitState \<Rightarrow> string option \<Rightarrow> string list" where
  "stopRoutes_of state payload =
     (case payload of
        None \<Rightarrow> []
      | Some p \<Rightarrow>
          if p = [] then []
          else (case data state of
                  None \<Rightarrow> []
                | Some d \<Rightarrow> (case map_of (stopToRoutes d) p of None \<Rightarrow> [] | Some rs \<Rightarrow> rs)))"

text \<open>
  The reducer. Its \<^verbatim>\<open>default\<close> branch (an action of no known type returns the
  state) has no action in \<open>TransitAction\<close>.
\<close>

fun transitReducer :: "'m TransitState \<Rightarrow> 'm TransitAction \<Rightarrow> 'm TransitState" where
  "transitReducer state (SET_DATA payload) =
     state\<lparr>data := Some payload, loading := False, error := None\<rparr>"
| "transitReducer state (SET_LOADING payload) = state\<lparr>loading := payload\<rparr>"
| "transitReducer state (SET_ERROR payload) = state\<lparr>error := Some payload, loading := False\<rparr>"
| "transitReducer state (TOGGLE_FILTER payload) =
     state\<lparr>filters := toggle_filter (filters state) payload\<rparr>"
| "transitReducer state (SET_FILTERS payload) = state\<lparr>filters := payload\<rparr>"
| "transitReducer state (SELECT_STOP payload) =
     (let stopRoutes = stopRoutes_of state payload in
      state\<lparr>selection := (selection state)\<lparr>selectedStop := payload,
                                               selectedRoute := None,
                                               highlightedRoutes := stopRoutes\<rparr>,
            visibleRoutes := (if truthy payload then set stopRoutes else {})\<rparr>)"
| "transitReducer state (SELECT_ROUTE payload) =
     state\<lparr>selection := (selection state)\<lparr>selectedRoute := payload,
                                              selectedStop := None,
                                              highlightedRoutes :=
                                                (case payload of
                                                   None \<Rightarrow> []
                                                 | Some r \<Rightarrow> if r = [] then [] else [r])\<rparr>,
           visibleRoutes := (case payload of
                               None \<Rightarrow> {}
                             | Some r \<Rightarrow> if r = [] then {} else {r})\<rparr>"
| "transitReducer state (SET_HIGHLIGHTED_ROUTES payload) =
     state\<lparr>selection := (selection state)\<lparr>highlightedRoutes := payload\<rparr>\<rparr>"
| "transitReducer state TOGGLE_SIDEBAR = state\<lparr>sidebarOpen := \<not> sidebarOpen state\<rparr>"
| "transitReducer state OPEN_SIDEBAR = state\<lparr>sidebarOpen := True\<rparr>"
| "transitReducer state (TOGGLE_ROUTE_VISIBILITY payload) =
     state\<lparr>visibleRoutes :=
             (if payload \<in> visibleRoutes state then visibleRoutes state - {payload}
              else insert payload (visibleRoutes state))\<rparr>"
| "transitReducer state (SET_VISIBLE_ROUTES payload) = state\<lparr>visibleRoutes := payload\<rparr>"
| "transitReducer state CLEAR_SELECTION =
     state\<lparr>selection := \<lparr>selectedStop = None, selectedRoute = None, highlightedRoutes = []\<rparr>,
           visibleRoutes := {}\<rparr>"

text \<open>\<^verbatim>\<open>useReducer\<close>: the state after a sequence of dispatched actions.\<close>

definition dispatch_all :: "'m TransitAction list \<Rightarrow> 'm TransitState" where
  "dispatch_all actions = foldl transitReducer initialState actions"

definition isRouteVisible :: "'m TransitState \<Rightarrow> string \<Rightarrow> bool" where
  "isRouteVisible state routeId =
     (if visibleRoutes state = {} then True else routeId \<in> visibleRoutes state)"

section \<open>components/Map/RouteLayer.tsx\<close>

text \<open>
  What \<^verbatim>\<open>RoutePolyline\<close> returns: \<^verbatim>\<open>null\<close>, or a \<^verbatim>\<open>Polyline\<close> element with its
  positions, its path options, the route id its click handler passes to
  \<^verbatim>\<open>onClick\<close>, and the text of its tooltip.
\<close>

datatype Element = Null | Polyline "(real \<times> real) list" RouteLineOptions string string

text \<open>\<^verbatim>\<open>{TRANSIT_ICONS[transitType]} {properties.name}\<close>: an undefined icon renders as nothing.\<close>

definition tooltip_text :: "TransitType option \<Rightarrow> string \<Rightarrow> string" where
  "tooltip_text transitType route_name =
     (case transitType of None \<Rightarrow> [] | Some t \<Rightarrow> TRANSIT_ICONS t) @ '' '' @ route_name"

definition RoutePolyline :: "RouteFeature \<Rightarrow> bool \<Rightarrow> Element" where
  "RoutePolyline route isHighlighted =
     (case geometry route of
        None \<Rightarrow> Null
      | Some g \<Rightarrow>
         (case GeoJSONLineString.coordinates g of
            None \<Rightarrow> Null
          | Some cs \<Rightarrow>
             if length cs < 2 then Null
             else
               (let positions = map (\<lambda>(lng, lat). (lat, lng)) cs;
                    transitType = as_TransitType (type_name (properties route));
                    baseOptions = getRouteLineOptions transitType (Some (RouteProperties.color (properties route)));
                    pathOptions =
                      \<lparr>color = RouteLineOptions.color baseOptions,
                       weight = (if isHighlighted then weight baseOptions + 2 else weight baseOptions),
                       opacity = (if isHighlighted then 1 else opacity baseOptions),
                       dashArray = dashArray baseOptions\<rparr>
                in Polyline positions pathOptions (route_id (properties route))
                     (tooltip_text transitType (RouteProperties.name (properties route))))))"

text \<open>The geometry the guard of \<^verbatim>\<open>RoutePolyline\<close> turns away: none, no coordinates, or fewer than two.\<close>

definition degenerate :: "RouteFeature \<Rightarrow> bool" where
  "degenerate route =
     (case geometry route of
        None \<Rightarrow> True
      | Some g \<Rightarrow>
         (case GeoJSONLineString.coordinates g of None \<Rightarrow> True | Some cs \<Rightarrow> length cs < 2))"

section \<open>Predicates and example data of the claims\<close>

text \<open>At most one of the selected stop and the selected route is set.\<close>

definition exclusive :: "'m TransitState \<Rightarrow> bool" where
  "exclusive state =
     (selectedStop (selection state) = None \<or> selectedRoute (selection state) = None)"

text \<open>
  A data directory that holds the six files of \<open>d\<close>: each is answered at its own
  path with status 200, every other path with 404.
\<close>

definition respond :: "string \<Rightarrow> 'a \<Rightarrow> string \<Rightarrow> 'a Response" where
  "respond filename v path =
     (if path = getDataPath filename then HttpResponse True ''OK'' (Some v)
      else HttpResponse False ''Not Found'' None)"

definition serving :: "'m TransitData \<Rightarrow> 'm DataServer" where
  "serving d =
     \<lparr>stops_at = respond ''stops.geojson'' (stops d),
      routes_at = respond ''routes.geojson'' (TransitData.routes d),
      stopToRoutes_at = respond ''stop_to_routes.json'' (stopToRoutes d),
      routeToStops_at = respond ''route_to_stops.json'' (routeToStops d),
      timetable_at = respond ''timetable.json'' (timetable d),
      metadata_at = respond ''metadata.json'' (metadata d)\<rparr>"

definition no_data :: "unit TransitData" where
  "no_data = \<lparr>stops = [], routes = [], stopToRoutes = [], routeToStops = [],
               timetable = [], metadata = ()\<rparr>"

definition one_stop_data :: "unit TransitData" where
  "one_stop_data = no_data\<lparr>stopToRoutes := [(''HMRL_MGBS'', [''HMRL_RED'', ''HMRL_GREEN''])]\<rparr>"

definition example_route :: "(real \<times> real) list option \<Rightarrow> RouteFeature" where
  "example_route cs =
     \<lparr>geometry = Some \<lparr>coordinates = cs\<rparr>,
      properties =
        \<lparr>route_id = ''HMRL_RED'', name = ''Red Line'', short_name = ''RED'', long_name = ''Red Line'',
         route_type = 1, type_name = ''metro'', agency = ''HMRL'', color = ''#FF0000'',
         text_color = ''#FFFFFF'', stops = [''HMRL_MIYAPUR'', ''HMRL_JNTU''], stop_count = 2\<rparr>\<rparr>"

chapter \<open>The preprocessing pipeline, from its specification\<close>

text \<open>
  The Python of the pipeline (\<^verbatim>\<open>scripts/\<close>) is not among the sources. Its stages are
  modelled here from the specification, and from the fragments of it that the
  implementation plan quotes.
\<close>

section \<open>GTFS times\<close>

definition digit_table :: "(char \<times> nat) list" where
  "digit_table =
     [(CHR ''0'', 0), (CHR ''1'', 1), (CHR ''2'', 2), (CHR ''3'', 3), (CHR ''4'', 4),
      (CHR ''5'', 5), (CHR ''6'', 6), (CHR ''7'', 7), (CHR ''8'', 8), (CHR ''9'', 9)]"

definition digit_val :: "char \<Rightarrow> nat option" where
  "digit_val c = map_of digit_table c"

text \<open>
  Python's \<^verbatim>\<open>int\<close> on a field of a time: the fields the validator lets through are
  digit strings (\<^verbatim>\<open>H+:MM:SS\<close>); any other field raises, which is \<open>None\<close>.
\<close>

fun parse_digits :: "nat \<Rightarrow> string \<Rightarrow> nat option" where
  "parse_digits acc [] = Some acc"
| "parse_digits acc (c # cs) =
     (case digit_val c of None \<Rightarrow> None | Some d \<Rightarrow> parse_digits (10 * acc + d) cs)"

definition parse_int :: "string \<Rightarrow> nat option" where
  "parse_int s = (if s = [] then None else parse_digits 0 s)"

text \<open>
  \<^verbatim>\<open>h, m, s = map(int, gtfs_time.split(':'))\<close>: exactly three fields, each an
  integer.
\<close>

definition parse_gtfs_time :: "string \<Rightarrow> (nat \<times> nat \<times> nat) option" where
  "parse_gtfs_time gtfs_time =
     (case split_on CHR '':'' gtfs_time of
        [h, m, s] \<Rightarrow>
          (case parse_int h of
             None \<Rightarrow> None
           | Some h' \<Rightarrow>
              (case parse_int m of
                 None \<Rightarrow> None
               | Some m' \<Rightarrow>
                  (case parse_int s of None \<Rightarrow> None | Some s' \<Rightarrow> Some (h', m', s'))))
      | _ \<Rightarrow> None)"

text \<open>\<^verbatim>\<open>f"{n:02d}"\<close>: decimal, padded with a zero to two digits.\<close>

definition digit_char :: "nat \<Rightarrow> char" where
  "digit_char d = ''0123456789'' ! (d mod 10)"

fun decimal :: "nat \<Rightarrow> string" where
  "decimal n = (if n < 10 then [digit_char n] else decimal (n div 10) @ [digit_char n])"

definition pad2 :: "nat \<Rightarrow> string" where
  "pad2 n = (if n < 10 then CHR ''0'' # decimal n else decimal n)"

text \<open>
  Modelled from the spec: the time normalization of the Timetable Builder (its Python
  is not among the sources; the implementation plan quotes \<^verbatim>\<open>normalize_time\<close>). "A
  GTFS time \<^verbatim>\<open>H:MM:SS\<close> where \<^verbatim>\<open>H\<close> may exceed 23 is normalized by \<^verbatim>\<open>H mod 24\<close> for
  display purposes, producing \<^verbatim>\<open>HH:MM\<close>."
\<close>

definition display_label :: "nat \<times> nat \<times> nat \<Rightarrow> string" where
  "display_label t = (case t of (h, m, s) \<Rightarrow> pad2 (h mod 24) @ '':'' @ pad2 m)"

definition normalize_time :: "string \<Rightarrow> string option" where
  "normalize_time gtfs_time = map_option display_label (parse_gtfs_time gtfs_time)"

text \<open>
  Modelled from the spec: "the original (pre-modulo) time value" of a departure, by
  which a timetable bucket is ordered; here the seconds since the start of the
  service day.
\<close>

definition original_value :: "nat \<times> nat \<times> nat \<Rightarrow> nat" where
  "original_value t = (case t of (h, m, s) \<Rightarrow> h * 3600 + m * 60 + s)"

section \<open>The feed tables\<close>

text \<open>
  Modelled from the spec: the tables of one agency's feed as the stages after the
  Validator and the Namespacer read them, with the columns these stages join and sort
  on. (The other columns are carried to the output unchanged and left out.)
\<close>

record StopRow =
  s_id :: string
  s_name :: string

record RouteRow =
  r_id :: string
  r_name :: string

record TripRow =
  t_id :: string
  t_route :: string
  t_service :: string

record StopTimeRow =
  st_trip :: string
  st_stop :: string
  st_sequence :: int
  st_departure :: string

record CalendarRow =
  c_service :: string
  c_monday :: bool
  c_tuesday :: bool
  c_wednesday :: bool
  c_thursday :: bool
  c_friday :: bool
  c_saturday :: bool
  c_sunday :: bool

record Feed =
  stops_txt :: "StopRow list"
  routes_txt :: "RouteRow list"
  trips_txt :: "TripRow list"
  stop_times_txt :: "StopTimeRow list"
  calendar_txt :: "CalendarRow list"

section \<open>Timetable Builder\<close>

datatype DayType = Weekday | Weekend

text \<open>
  Modelled from the spec: the day-type classification. "A service_id is "weekday" if
  its calendar row has at least one of Monday to Friday active; "weekend" if at least
  one of Saturday/Sunday active"; a service with no calendar row is in neither bucket.
\<close>

fun active_on :: "CalendarRow \<Rightarrow> DayType \<Rightarrow> bool" where
  "active_on row Weekday =
     (c_monday row \<or> c_tuesday row \<or> c_wednesday row \<or> c_thursday row \<or> c_friday row)"
| "active_on row Weekend = (c_saturday row \<or> c_sunday row)"

definition runs_on :: "CalendarRow list \<Rightarrow> string \<Rightarrow> DayType \<Rightarrow> bool" where
  "runs_on cal service day =
     list_ex (\<lambda>row. c_service row = service \<and> active_on row day) cal"

text \<open>
  Modelled from the spec: the raw departure times of one (stop, route, day-type)
  bucket, "across matching trips", in the order of the stop_times table.
\<close>

definition departures :: "Feed \<Rightarrow> string \<Rightarrow> string \<Rightarrow> DayType \<Rightarrow> string list" where
  "departures feed stop route day =
     concat (map (\<lambda>st.
        if st_stop st = stop \<and>
           list_ex (\<lambda>t. t_id t = st_trip st \<and> t_route t = route \<and>
                         runs_on (calendar_txt feed) (t_service t) day) (trips_txt feed)
        then [st_departure st] else [])
      (stop_times_txt feed))"

text \<open>
  Modelled from the spec: one bucket of the Timetable Builder. "Collect all normalized
  departure times across matching trips, ..., deduplicate exact-time collisions, sort by
  original pre-modulo value." Each time is kept with its original value; of several
  times with one label the first collected stays; a time that does not parse is left
  out.
\<close>

definition collect_times :: "string list \<Rightarrow> (nat \<times> string) list" where
  "collect_times raw =
     concat (map (\<lambda>t. case parse_gtfs_time t of
                         None \<Rightarrow> []
                       | Some hms \<Rightarrow> [(original_value hms, display_label hms)]) raw)"

fun dedupe_labels :: "string list \<Rightarrow> (nat \<times> string) list \<Rightarrow> (nat \<times> string) list" where
  "dedupe_labels seen [] = []"
| "dedupe_labels seen (e # es) =
     (if snd e \<in> set seen then dedupe_labels seen es
      else e # dedupe_labels (snd e # seen) es)"

definition bucket_entries :: "string list \<Rightarrow> (nat \<times> string) list" where
  "bucket_entries raw = sort_key fst (dedupe_labels [] (collect_times raw))"

definition bucket_times :: "string list \<Rightarrow> string list" where
  "bucket_times raw = map snd (bucket_entries raw)"

definition timetable_entry :: "Feed \<Rightarrow> string \<Rightarrow> string \<Rightarrow> TimetableEntry" where
  "timetable_entry feed stop route =
     \<lparr>weekday = bucket_times (departures feed stop route Weekday),
      weekend = bucket_times (departures feed stop route Weekend)\<rparr>"

text \<open>Two trips of one route at one stop, on a weekday service: 23:50:00 and 25:10:00.\<close>

definition late_feed :: Feed where
  "late_feed =
     \<lparr>stops_txt = [\<lparr>s_id = ''HMRL_MGBS'', s_name = ''MGBS''\<rparr>],
      routes_txt = [\<lparr>r_id = ''HMRL_RED'', r_name = ''Red Line''\<rparr>],
      trips_txt = [\<lparr>t_id = ''HMRL_T1'', t_route = ''HMRL_RED'', t_service = ''HMRL_WD''\<rparr>,
                   \<lparr>t_id = ''HMRL_T2'', t_route = ''HMRL_RED'', t_service = ''HMRL_WD''\<rparr>],
      stop_times_txt =
        [\<lparr>st_trip = ''HMRL_T2'', st_stop = ''HMRL_MGBS'', st_sequence = 1, st_departure = ''25:10:00''\<rparr>,
         \<lparr>st_trip = ''HMRL_T1'', st_stop = ''HMRL_MGBS'', st_sequence = 1, st_departure = ''23:50:00''\<rparr>],
      calendar_txt =
        [\<lparr>c_service = ''HMRL_WD'', c_monday = True, c_tuesday = True, c_wednesday = True,
          c_thursday = True, c_friday = True, c_saturday = False, c_sunday = False\<rparr>]\<rparr>"

section \<open>Dangling rows\<close>

text \<open>
  Modelled from the spec: the Feed Validator's policy for referential integrity,
  "dangling foreign keys (e.g., a trip referencing an unknown route) are logged as
  warnings and the offending rows are dropped downstream": a trip of no known route,
  and a stop time of no kept trip or of no known stop, are dropped before the stages
  that join the tables.
\<close>

definition drop_dangling :: "Feed \<Rightarrow> Feed" where
  "drop_dangling feed =
     (let kept_trips =
            filter (\<lambda>t. t_route t \<in> set (map r_id (routes_txt feed))) (trips_txt feed);
          kept_times =
            filter (\<lambda>st. st_trip st \<in> set (map t_id kept_trips) \<and>
                          st_stop st \<in> set (map s_id (stops_txt feed)))
                   (stop_times_txt feed)
      in feed\<lparr>trips_txt := kept_trips, stop_times_txt := kept_times\<rparr>)"

section \<open>Stop Resolver\<close>

text \<open>
  Modelled from the spec: the canonical Stop, with the fields the index tables are
  computed from (its coordinates, agency, transit type and service times are left out).
\<close>

record Stop =
  stop_ident :: string
  stop_label :: string
  route_ids :: "string list"

text \<open>
  Modelled from the spec: the Stop Resolver. "\<^verbatim>\<open>route_ids\<close> = the set of routes
  reachable via \<^verbatim>\<open>stop -> stop_times(stop_id) -> trip_id -> trips -> route_id\<close>,
  deduplicated"; "a stop with no stop_times rows at all (orphaned) is excluded from
  the output entirely".
\<close>

definition routes_serving :: "Feed \<Rightarrow> string \<Rightarrow> string list" where
  "routes_serving feed stop =
     remdups (concat (map (\<lambda>st.
        map t_route (filter (\<lambda>t. t_id t = st_trip st) (trips_txt feed)))
      (filter (\<lambda>st. st_stop st = stop) (stop_times_txt feed))))"

definition resolve_stops :: "Feed \<Rightarrow> Stop list" where
  "resolve_stops feed =
     map (\<lambda>row. \<lparr>stop_ident = s_id row, stop_label = s_name row,
                   route_ids = routes_serving feed (s_id row)\<rparr>)
       (filter (\<lambda>row. list_ex (\<lambda>st. st_stop st = s_id row) (stop_times_txt feed))
          (stops_txt feed))"

section \<open>Route Geometry Builder\<close>

text \<open>
  Modelled from the spec: StopRef and the canonical Route, with the fields the index
  tables are computed from (the names, type, colours and geometry of a route are left
  out).
\<close>

record StopRef =
  ref_stop_id :: string
  ref_name :: string
  sequence_number :: int

record Route =
  route_ident :: string
  route_label :: string
  ordered_stops :: "StopRef list"

text \<open>Modelled from the spec: the stop_times rows of one trip.\<close>

definition trip_rows :: "Feed \<Rightarrow> string \<Rightarrow> StopTimeRow list" where
  "trip_rows feed trip = filter (\<lambda>st. st_trip st = trip) (stop_times_txt feed)"

text \<open>
  Modelled from the spec: the representative trip of a route, "the trip with the most
  stop_times rows (longest/most complete pattern), tie-broken by trip_id lexical order
  for determinism".
\<close>

definition better_trip :: "Feed \<Rightarrow> TripRow \<Rightarrow> TripRow \<Rightarrow> bool" where
  "better_trip feed a b =
     (length (trip_rows feed (t_id b)) < length (trip_rows feed (t_id a)) \<or>
      (length (trip_rows feed (t_id a)) = length (trip_rows feed (t_id b)) \<and> t_id a < t_id b))"

fun best_trip :: "Feed \<Rightarrow> TripRow list \<Rightarrow> TripRow option" where
  "best_trip feed [] = None"
| "best_trip feed (t # ts) =
     (case best_trip feed ts of
        None \<Rightarrow> Some t
      | Some b \<Rightarrow> if better_trip feed b t then Some b else Some t)"

definition representative_trip :: "Feed \<Rightarrow> string \<Rightarrow> TripRow option" where
  "representative_trip feed route =
     best_trip feed (filter (\<lambda>t. t_route t = route) (trips_txt feed))"

text \<open>
  Modelled from the spec: the name a StopRef carries, that of the stop in the stops
  table (every stop of a kept stop time is in it).
\<close>

definition stop_name_of :: "Feed \<Rightarrow> string \<Rightarrow> string" where
  "stop_name_of feed stop =
     (case find (\<lambda>row. s_id row = stop) (stops_txt feed) of
        None \<Rightarrow> []
      | Some row \<Rightarrow> s_name row)"

text \<open>
  Modelled from the spec: the ordered stop sequence of a route, "that trip's
  stop_times sorted by \<^verbatim>\<open>stop_sequence\<close> ascending"; "routes whose representative trip
  has fewer than 2 stop_times rows are dropped" (\<open>None\<close>), as is a route with no trip.
\<close>

definition build_route :: "Feed \<Rightarrow> RouteRow \<Rightarrow> Route option" where
  "build_route feed row =
     (case representative_trip feed (r_id row) of
        None \<Rightarrow> None
      | Some t \<Rightarrow>
         (let rows = sort_key st_sequence (trip_rows feed (t_id t)) in
          if length rows < 2 then None
          else Some \<lparr>route_ident = r_id row, route_label = r_name row,
                     ordered_stops =
                       map (\<lambda>st. \<lparr>ref_stop_id = st_stop st,
                                    ref_name = stop_name_of feed (st_stop st),
                                    sequence_number = st_sequence st\<rparr>) rows\<rparr>))"

text \<open>Modelled from the spec: the routes of a feed that are retained.\<close>

definition build_routes :: "Feed \<Rightarrow> Route list" where
  "build_routes feed =
     concat (map (\<lambda>row. case build_route feed row of None \<Rightarrow> [] | Some r \<Rightarrow> [r])
               (routes_txt feed))"

section \<open>Output Assembler\<close>

datatype pipeline_error =
    FeedLoadError string
  | ValidationError string
  | GeometryBuildError string
  | IndexIntegrityError

text \<open>
  Modelled from the spec: the part of the output the index tables belong to: the stop
  collection and the route collection (each stop with its \<^verbatim>\<open>routes[]\<close>, each
  route with its stops), the stop-to-routes index and the route-to-stops index
  ("mapping route_id to array of \<^verbatim>\<open>{stop_id, name, seq}\<close>").
\<close>

record Artifacts =
  stop_collection :: "Stop list"
  route_collection :: "Route list"
  stop_to_routes :: StopToRoutesMap
  route_to_stops :: RouteToStopsMap

text \<open>
  Modelled from the spec: the invariant the Output Assembler enforces, "every route_id
  appearing in any stop's \<^verbatim>\<open>route_ids\<close> must exist in the route collection, and vice
  versa".
\<close>

definition integrity_ok :: "Stop list \<Rightarrow> Route list \<Rightarrow> bool" where
  "integrity_ok ss rs =
     (list_all (\<lambda>s. list_all (\<lambda>r. r \<in> set (map route_ident rs)) (route_ids s)) ss \<and>
      list_all (\<lambda>r. list_ex (\<lambda>s. route_ident r \<in> set (route_ids s)) ss) rs)"

text \<open>
  Modelled from the spec: the Output Assembler. It "merges per-agency
  Stop/Route/Timetable collections" and "computes [the cross-index tables] from the
  canonical entities"; "any inconsistency is a fatal assembly error
  (\<^verbatim>\<open>IndexIntegrityError\<close>)".
\<close>

definition assemble :: "(Stop list \<times> Route list) list \<Rightarrow> pipeline_error + Artifacts" where
  "assemble per_agency =
     (let ss = concat (map fst per_agency);
          rs = concat (map snd per_agency)
      in if \<not> integrity_ok ss rs then Inl IndexIntegrityError
         else Inr \<lparr>stop_collection = ss,
                   route_collection = rs,
                   stop_to_routes = map (\<lambda>s. (stop_ident s, route_ids s)) ss,
                   route_to_stops =
                     map (\<lambda>r. (route_ident r,
                                map (\<lambda>sr. \<lparr>stop_id = ref_stop_id sr, name = ref_name sr,
                                             seq = sequence_number sr\<rparr>)
                                    (ordered_stops r))) rs\<rparr>)"

text \<open>
  Modelled from the spec: a route that the Route Geometry Builder drops is "pruned
  silently from output": with it go its trips and their stop times, as the rows of an
  unknown route do, so that no stop keeps a dropped route among its routes and a stop
  that only dropped routes serve is orphaned.
\<close>

definition prune_dropped :: "Feed \<Rightarrow> Feed" where
  "prune_dropped feed =
     drop_dangling
       (feed\<lparr>routes_txt := filter (\<lambda>row. build_route feed row \<noteq> None) (routes_txt feed)\<rparr>)"

text \<open>
  Modelled from the spec: stages 4 and 5 on one agency's namespaced feed, which "run
  independently per agency feed": the dangling rows are dropped, the routes are built,
  and the stops are resolved over the rows of the retained routes.
\<close>

definition process_feed :: "Feed \<Rightarrow> Stop list \<times> Route list" where
  "process_feed feed =
     (let clean = drop_dangling feed
      in (resolve_stops (prune_dropped clean), build_routes clean))"

text \<open>The stop ids listed under a route in the route-to-stops index (none for an unknown route).\<close>

definition stop_ids_of :: "Artifacts \<Rightarrow> string \<Rightarrow> string list" where
  "stop_ids_of out route =
     (case map_of (route_to_stops out) route of
        None \<Rightarrow> []
      | Some infos \<Rightarrow> map RouteStopInfo.stop_id infos)"

section \<open>Feed Loader\<close>

text \<open>
  Modelled from the spec: a table as the Feed Loader exposes it, its normalized column
  names and its rows; and a file of a feed bundle as the loader finds it: missing, not
  parsable as delimited text in any of the encodings tried, or parsed into a table.
\<close>

record 'r Table =
  table_columns :: "string list"
  table_rows :: "'r list"

datatype 'r LoadedFile = Missing | Unparsable | Parsed "'r Table"

text \<open>
  Modelled from the spec: the rows of the stops table before validation, with the
  coordinates the Feed Validator checks; the ids of all rows are still agency-local.
\<close>

record GeoStopRow = StopRow +
  s_lat :: real
  s_lon :: real

text \<open>
  Modelled from the spec: one agency's feed bundle (the rows of the agency table are
  read by no stage and are left out), and the tables the loader returns from it.
\<close>

record FeedBundle =
  bundle_agency :: string
  agency_file :: "unit LoadedFile"
  stops_file :: "GeoStopRow LoadedFile"
  routes_file :: "RouteRow LoadedFile"
  trips_file :: "TripRow LoadedFile"
  stop_times_file :: "StopTimeRow LoadedFile"
  calendar_file :: "CalendarRow LoadedFile"

record LoadedFeed =
  agency_table :: "unit Table"
  stops_table :: "GeoStopRow Table"
  routes_table :: "RouteRow Table"
  trips_table :: "TripRow Table"
  stop_times_table :: "StopTimeRow Table"
  calendar_table :: "CalendarRow Table option"

text \<open>
  Modelled from the spec: the Feed Loader. It "fails with \<^verbatim>\<open>FeedLoadError\<close> only when
  a required table (agency, stops, routes, trips, stop_times) is missing or unparsable
  as delimited text"; "missing optional tables ... are reported as absent, not an
  error".
\<close>

definition required_file :: "string \<Rightarrow> 'r LoadedFile \<Rightarrow> pipeline_error + 'r Table" where
  "required_file table_name file =
     (case file of Parsed t \<Rightarrow> Inr t | _ \<Rightarrow> Inl (FeedLoadError table_name))"

definition optional_file :: "'r LoadedFile \<Rightarrow> 'r Table option" where
  "optional_file file = (case file of Parsed t \<Rightarrow> Some t | _ \<Rightarrow> None)"

definition load_feed :: "FeedBundle \<Rightarrow> pipeline_error + LoadedFeed" where
  "load_feed bundle =
     (case required_file ''agency'' (agency_file bundle) of
        Inl e \<Rightarrow> Inl e
      | Inr a \<Rightarrow>
     (case required_file ''stops'' (stops_file bundle) of
        Inl e \<Rightarrow> Inl e
      | Inr s \<Rightarrow>
     (case required_file ''routes'' (routes_file bundle) of
        Inl e \<Rightarrow> Inl e
      | Inr r \<Rightarrow>
     (case required_file ''trips'' (trips_file bundle) of
        Inl e \<Rightarrow> Inl e
      | Inr t \<Rightarrow>
     (case required_file ''stop_times'' (stop_times_file bundle) of
        Inl e \<Rightarrow> Inl e
      | Inr st \<Rightarrow>
          Inr \<lparr>agency_table = a, stops_table = s, routes_table = r, trips_table = t,
               stop_times_table = st,
               calendar_table = optional_file (calendar_file bundle)\<rparr>)))))"

section \<open>Feed Validator\<close>

text \<open>
  The required columns of each required table, as the implementation plan lists them
  (step 3); a requirement is met by any one of its alternatives ("route_short_name or
  route_long_name").
\<close>

definition required_columns :: "(string \<times> string list list) list" where
  "required_columns =
     [(''agency'', [[''agency_id''], [''agency_name''], [''agency_url''], [''agency_timezone'']]),
      (''stops'', [[''stop_id''], [''stop_name''], [''stop_lat''], [''stop_lon'']]),
      (''routes'', [[''route_id''], [''route_short_name'', ''route_long_name''], [''route_type'']]),
      (''trips'', [[''route_id''], [''service_id''], [''trip_id'']]),
      (''stop_times'', [[''trip_id''], [''arrival_time''], [''departure_time''], [''stop_id''],
                        [''stop_sequence'']])]"

text \<open>
  Modelled from the spec: check (a) of the Feed Validator, "required columns present
  per table": the requirements of a table that none of its columns meets.
\<close>

definition missing_in :: "string \<Rightarrow> string list \<Rightarrow> (string \<times> string list) list" where
  "missing_in table_name cols =
     map (\<lambda>alts. (table_name, alts))
       (filter (\<lambda>alts. \<not> list_ex (\<lambda>c. c \<in> set cols) alts)
          (case map_of required_columns table_name of None \<Rightarrow> [] | Some reqs \<Rightarrow> reqs))"

definition missing_columns :: "LoadedFeed \<Rightarrow> (string \<times> string list) list" where
  "missing_columns loaded =
     missing_in ''agency'' (table_columns (agency_table loaded)) @
     missing_in ''stops'' (table_columns (stops_table loaded)) @
     missing_in ''routes'' (table_columns (routes_table loaded)) @
     missing_in ''trips'' (table_columns (trips_table loaded)) @
     missing_in ''stop_times'' (table_columns (stop_times_table loaded))"

text \<open>
  Modelled from the spec: check (b) of the Feed Validator, "every stop's lat/lng within
  valid ranges" (\<^verbatim>\<open>lat\<close> in [-90, 90], \<^verbatim>\<open>lng\<close> in [-180, 180]): the stops outside.
\<close>

definition out_of_range :: "LoadedFeed \<Rightarrow> GeoStopRow list" where
  "out_of_range loaded =
     filter (\<lambda>row. \<not> (- 90 \<le> s_lat row \<and> s_lat row \<le> 90 \<and>
                         - 180 \<le> s_lon row \<and> s_lon row \<le> 180))
       (table_rows (stops_table loaded))"

text \<open>
  Modelled from the spec: the Feed Validator. A missing required column fails the feed
  at once ("fails fast"), and a coordinate out of range fails it too
  ("\<^verbatim>\<open>ValidationError\<close> (required column/value-range failure, aborts that feed
  only, unless unsafe mode downgrades to warning)"); a malformed time and a dangling
  foreign key only warn, and the rows are dropped downstream. With the flag to skip
  validation (the unsafe mode) "errors become warnings". The validator "does not
  mutate data".
\<close>

definition validate_feed :: "bool \<Rightarrow> LoadedFeed \<Rightarrow> pipeline_error + LoadedFeed" where
  "validate_feed unsafe loaded =
     (if unsafe then Inr loaded
      else (case missing_columns loaded of
              (n, alts) # others \<Rightarrow>
                Inl (ValidationError (n @ ''.'' @ join_with CHR ''|'' alts))
            | [] \<Rightarrow>
               (case out_of_range loaded of
                  row # others \<Rightarrow> Inl (ValidationError (''stops: '' @ s_id row))
                | [] \<Rightarrow> Inr loaded)))"

text \<open>
  Modelled from the spec: the stages that can fail a feed, the Feed Loader and then the
  Feed Validator ("data flows strictly forward"), and whether a feed succeeds.
\<close>

definition attempt_feed :: "bool \<Rightarrow> FeedBundle \<Rightarrow> pipeline_error + LoadedFeed" where
  "attempt_feed unsafe bundle =
     (case load_feed bundle of
        Inl e \<Rightarrow> Inl e
      | Inr loaded \<Rightarrow> validate_feed unsafe loaded)"

definition feed_succeeds :: "bool \<Rightarrow> FeedBundle \<Rightarrow> bool" where
  "feed_succeeds unsafe bundle =
     (case attempt_feed unsafe bundle of Inl e \<Rightarrow> False | Inr loaded \<Rightarrow> True)"

section \<open>Identifier Namespacer\<close>

text \<open>
  Modelled from the spec: the Identifier Namespacer on the tables of one feed. It
  "prefixes every agency-local id (stop, route, trip, service) with the agency code",
  "wherever they appear as keys or foreign keys", "immediately after validation"; the
  result holds the columns the later stages read.
\<close>

definition namespace_feed :: "AgencyCode \<Rightarrow> LoadedFeed \<Rightarrow> Feed" where
  "namespace_feed code loaded =
     \<lparr>stops_txt =
        map (\<lambda>row. \<lparr>s_id = namespace_id code (s_id row), s_name = s_name row\<rparr>)
          (table_rows (stops_table loaded)),
      routes_txt =
        map (\<lambda>row. \<lparr>r_id = namespace_id code (r_id row), r_name = r_name row\<rparr>)
          (table_rows (routes_table loaded)),
      trips_txt =
        map (\<lambda>row. \<lparr>t_id = namespace_id code (t_id row),
                      t_route = namespace_id code (t_route row),
                      t_service = namespace_id code (t_service row)\<rparr>)
          (table_rows (trips_table loaded)),
      stop_times_txt =
        map (\<lambda>row. \<lparr>st_trip = namespace_id code (st_trip row),
                      st_stop = namespace_id code (st_stop row),
                      st_sequence = st_sequence row,
                      st_departure = st_departure row\<rparr>)
          (table_rows (stop_times_table loaded)),
      calendar_txt =
        (case calendar_table loaded of
           None \<Rightarrow> []
         | Some t \<Rightarrow>
             map (\<lambda>row. row\<lparr>c_service := namespace_id code (c_service row)\<rparr>) (table_rows t))\<rparr>"

section \<open>The run\<close>

text \<open>
  Modelled from the spec: the pipeline after validation, "3 -> 4, 5, 6 -> 7": each
  agency's tables are namespaced and taken through its stages, and the Output
  Assembler merges the results.
\<close>

definition pipeline_output :: "(AgencyCode \<times> LoadedFeed) list \<Rightarrow> pipeline_error + Artifacts" where
  "pipeline_output agencies =
     assemble (map (\<lambda>(code, loaded). process_feed (namespace_feed code loaded)) agencies)"

text \<open>
  Modelled from the spec: what a run leaves: the artifacts it wrote (none when it
  failed), the feeds that failed with their errors, the fatal error that aborted it, if
  any, and the exit code of the process.
\<close>

record RunResult =
  written :: "Artifacts option"
  failures :: "(AgencyCode \<times> pipeline_error) list"
  aborted :: "pipeline_error option"
  exit_code :: int

text \<open>
  Modelled from the spec: the feeds of a run one after the other. "Per-feed errors are
  isolated": a feed that fails is recorded and "the run continues with the remaining
  feeds".
\<close>

fun run_feeds ::
  "bool \<Rightarrow> FeedBundle list \<Rightarrow>
   (AgencyCode \<times> LoadedFeed) list \<times> (AgencyCode \<times> pipeline_error) list" where
  "run_feeds unsafe [] = ([], [])"
| "run_feeds unsafe (b # bs) =
     (case run_feeds unsafe bs of
        (passed, failed) \<Rightarrow>
          (case attempt_feed unsafe b of
             Inl e \<Rightarrow> (passed, (bundle_agency b, e) # failed)
           | Inr loaded \<Rightarrow> ((bundle_agency b, loaded) # passed, failed)))"

text \<open>The optional allow-list of agency codes of the command line.\<close>

definition selected_feeds :: "string list option \<Rightarrow> FeedBundle list \<Rightarrow> FeedBundle list" where
  "selected_feeds allow bundles =
     (case allow of
        None \<Rightarrow> bundles
      | Some codes \<Rightarrow> filter (\<lambda>b. bundle_agency b \<in> set codes) bundles)"

text \<open>
  Modelled from the spec: the run of the command line. "Exit code 0 on full or partial
  success (at least 1 feed succeeded), non-zero if zero feeds succeeded" (1 here), "in
  which case the whole run fails". An \<^verbatim>\<open>IndexIntegrityError\<close> of the Output Assembler
  is "fatal, aborts the entire run"; the spec names no exit code for it, and an aborted
  run exits with 1 here as well.
\<close>

definition run_pipeline :: "bool \<Rightarrow> string list option \<Rightarrow> FeedBundle list \<Rightarrow> RunResult" where
  "run_pipeline unsafe allow bundles =
     (case run_feeds unsafe (selected_feeds allow bundles) of
        (passed, failed) \<Rightarrow>
          if passed = []
          then \<lparr>written = None, failures = failed, aborted = None, exit_code = 1\<rparr>
          else (case pipeline_output passed of
                  Inl e \<Rightarrow>
                    \<lparr>written = None, failures = failed, aborted = Some e, exit_code = 1\<rparr>
                | Inr out \<Rightarrow>
                    \<lparr>written = Some out, failures = failed, aborted = None, exit_code = 0\<rparr>))"

section \<open>Example feeds\<close>

definition agency_columns :: "string list" where
  "agency_columns = [''agency_id'', ''agency_name'', ''agency_url'', ''agency_timezone'']"

definition stops_columns :: "string list" where
  "stops_columns = [''stop_id'', ''stop_name'', ''stop_lat'', ''stop_lon'']"

definition routes_columns :: "string list" where
  "routes_columns = [''route_id'', ''route_long_name'', ''route_type'']"

definition trips_columns :: "string list" where
  "trips_columns = [''route_id'', ''service_id'', ''trip_id'']"

definition stop_times_columns :: "string list" where
  "stop_times_columns =
     [''trip_id'', ''arrival_time'', ''departure_time'', ''stop_id'', ''stop_sequence'']"

text \<open>
  A bus feed with agency-local ids. Its route 10 has two trip patterns: the longer trip
  calls at A, B and C, the shorter one branches off to D.
\<close>

definition branch_loaded :: LoadedFeed where
  "branch_loaded =
     \<lparr>agency_table = \<lparr>table_columns = agency_columns, table_rows = [()]\<rparr>,
      stops_table = \<lparr>table_columns = stops_columns, table_rows =
        [\<lparr>s_id = ''A'', s_name = ''A'', s_lat = 17.40, s_lon = 78.40\<rparr>,
         \<lparr>s_id = ''B'', s_name = ''B'', s_lat = 17.41, s_lon = 78.41\<rparr>,
         \<lparr>s_id = ''C'', s_name = ''C'', s_lat = 17.42, s_lon = 78.42\<rparr>,
         \<lparr>s_id = ''D'', s_name = ''D'', s_lat = 17.43, s_lon = 78.40\<rparr>]\<rparr>,
      routes_table = \<lparr>table_columns = routes_columns, table_rows =
        [\<lparr>r_id = ''10'', r_name = ''10''\<rparr>]\<rparr>,
      trips_table = \<lparr>table_columns = trips_columns, table_rows =
        [\<lparr>t_id = ''T1'', t_route = ''10'', t_service = ''WD''\<rparr>,
         \<lparr>t_id = ''T2'', t_route = ''10'', t_service = ''WD''\<rparr>]\<rparr>,
      stop_times_table = \<lparr>table_columns = stop_times_columns, table_rows =
        [\<lparr>st_trip = ''T1'', st_stop = ''A'', st_sequence = 1, st_departure = ''08:00:00''\<rparr>,
         \<lparr>st_trip = ''T1'', st_stop = ''B'', st_sequence = 2, st_departure = ''08:10:00''\<rparr>,
         \<lparr>st_trip = ''T1'', st_stop = ''C'', st_sequence = 3, st_departure = ''08:20:00''\<rparr>,
         \<lparr>st_trip = ''T2'', st_stop = ''A'', st_sequence = 1, st_departure = ''09:00:00''\<rparr>,
         \<lparr>st_trip = ''T2'', st_stop = ''D'', st_sequence = 2, st_departure = ''09:10:00''\<rparr>]\<rparr>,
      calendar_table = Some \<lparr>table_columns = [''service_id''], table_rows =
        [\<lparr>c_service = ''WD'', c_monday = True, c_tuesday = True, c_wednesday = True,
          c_thursday = True, c_friday = True, c_saturday = False, c_sunday = False\<rparr>]\<rparr>\<rparr>"

text \<open>The same feed after the Namespacer, for the agency TGSRTC.\<close>

definition branch_feed :: Feed where
  "branch_feed =
     \<lparr>stops_txt = [\<lparr>s_id = ''TGSRTC_A'', s_name = ''A''\<rparr>, \<lparr>s_id = ''TGSRTC_B'', s_name = ''B''\<rparr>,
                   \<lparr>s_id = ''TGSRTC_C'', s_name = ''C''\<rparr>, \<lparr>s_id = ''TGSRTC_D'', s_name = ''D''\<rparr>],
      routes_txt = [\<lparr>r_id = ''TGSRTC_10'', r_name = ''10''\<rparr>],
      trips_txt = [\<lparr>t_id = ''TGSRTC_T1'', t_route = ''TGSRTC_10'', t_service = ''TGSRTC_WD''\<rparr>,
                   \<lparr>t_id = ''TGSRTC_T2'', t_route = ''TGSRTC_10'', t_service = ''TGSRTC_WD''\<rparr>],
      stop_times_txt =
        [\<lparr>st_trip = ''TGSRTC_T1'', st_stop = ''TGSRTC_A'', st_sequence = 1, st_departure = ''08:00:00''\<rparr>,
         \<lparr>st_trip = ''TGSRTC_T1'', st_stop = ''TGSRTC_B'', st_sequence = 2, st_departure = ''08:10:00''\<rparr>,
         \<lparr>st_trip = ''TGSRTC_T1'', st_stop = ''TGSRTC_C'', st_sequence = 3, st_departure = ''08:20:00''\<rparr>,
         \<lparr>st_trip = ''TGSRTC_T2'', st_stop = ''TGSRTC_A'', st_sequence = 1, st_departure = ''09:00:00''\<rparr>,
         \<lparr>st_trip = ''TGSRTC_T2'', st_stop = ''TGSRTC_D'', st_sequence = 2, st_departure = ''09:10:00''\<rparr>],
      calendar_txt =
        [\<lparr>c_service = ''TGSRTC_WD'', c_monday = True, c_tuesday = True, c_wednesday = True,
          c_thursday = True, c_friday = True, c_saturday = False, c_sunday = False\<rparr>]\<rparr>"

text \<open>What the run over this feed alone produces.\<close>

definition branch_artifacts :: Artifacts where
  "branch_artifacts =
     \<lparr>stop_collection =
        [\<lparr>stop_ident = ''TGSRTC_A'', stop_label = ''A'', route_ids = [''TGSRTC_10'']\<rparr>,
         \<lparr>stop_ident = ''TGSRTC_B'', stop_label = ''B'', route_ids = [''TGSRTC_10'']\<rparr>,
         \<lparr>stop_ident = ''TGSRTC_C'', stop_label = ''C'', route_ids = [''TGSRTC_10'']\<rparr>,
         \<lparr>stop_ident = ''TGSRTC_D'', stop_label = ''D'', route_ids = [''TGSRTC_10'']\<rparr>],
      route_collection =
        [\<lparr>route_ident = ''TGSRTC_10'', route_label = ''10'',
          ordered_stops =
            [\<lparr>ref_stop_id = ''TGSRTC_A'', ref_name = ''A'', sequence_number = 1\<rparr>,
             \<lparr>ref_stop_id = ''TGSRTC_B'', ref_name = ''B'', sequence_number = 2\<rparr>,
             \<lparr>ref_stop_id = ''TGSRTC_C'', ref_name = ''C'', sequence_number = 3\<rparr>]\<rparr>],
      stop_to_routes =
        [(''TGSRTC_A'', [''TGSRTC_10'']), (''TGSRTC_B'', [''TGSRTC_10'']),
         (''TGSRTC_C'', [''TGSRTC_10'']), (''TGSRTC_D'', [''TGSRTC_10''])],
      route_to_stops =
        [(''TGSRTC_10'',
          [\<lparr>stop_id = ''TGSRTC_A'', name = ''A'', seq = 1\<rparr>,
           \<lparr>stop_id = ''TGSRTC_B'', name = ''B'', seq = 2\<rparr>,
           \<lparr>stop_id = ''TGSRTC_C'', name = ''C'', seq = 3\<rparr>])]\<rparr>"

text \<open>
  A metro feed with one trip over the stops X and Y, and a shuttle route whose only
  trip has a single stop time, at Z: the shuttle route is dropped, and Z with it.
\<close>

definition metro_loaded :: LoadedFeed where
  "metro_loaded =
     \<lparr>agency_table = \<lparr>table_columns = agency_columns, table_rows = [()]\<rparr>,
      stops_table = \<lparr>table_columns = stops_columns, table_rows =
        [\<lparr>s_id = ''X'', s_name = ''X'', s_lat = 17.38, s_lon = 78.48\<rparr>,
         \<lparr>s_id = ''Y'', s_name = ''Y'', s_lat = 17.39, s_lon = 78.49\<rparr>,
         \<lparr>s_id = ''Z'', s_name = ''Z'', s_lat = 17.37, s_lon = 78.47\<rparr>]\<rparr>,
      routes_table = \<lparr>table_columns = routes_columns, table_rows =
        [\<lparr>r_id = ''RED'', r_name = ''Red Line''\<rparr>, \<lparr>r_id = ''SH'', r_name = ''Shuttle''\<rparr>]\<rparr>,
      trips_table = \<lparr>table_columns = trips_columns, table_rows =
        [\<lparr>t_id = ''T1'', t_route = ''RED'', t_service = ''WD''\<rparr>,
         \<lparr>t_id = ''T9'', t_route = ''SH'', t_service = ''WD''\<rparr>]\<rparr>,
      stop_times_table = \<lparr>table_columns = stop_times_columns, table_rows =
        [\<lparr>st_trip = ''T1'', st_stop = ''Y'', st_sequence = 2, st_departure = ''06:05:00''\<rparr>,
         \<lparr>st_trip = ''T9'', st_stop = ''Z'', st_sequence = 1, st_departure = ''07:00:00''\<rparr>,
         \<lparr>st_trip = ''T1'', st_stop = ''X'', st_sequence = 1, st_departure = ''06:00:00''\<rparr>]\<rparr>,
      calendar_table = None\<rparr>"

text \<open>What the run over both feeds produces.\<close>

definition both_artifacts :: Artifacts where
  "both_artifacts =
     \<lparr>stop_collection =
        stop_collection branch_artifacts @
        [\<lparr>stop_ident = ''HMRL_X'', stop_label = ''X'', route_ids = [''HMRL_RED'']\<rparr>,
         \<lparr>stop_ident = ''HMRL_Y'', stop_label = ''Y'', route_ids = [''HMRL_RED'']\<rparr>],
      route_collection =
        route_collection branch_artifacts @
        [\<lparr>route_ident = ''HMRL_RED'', route_label = ''Red Line'',
          ordered_stops =
            [\<lparr>ref_stop_id = ''HMRL_X'', ref_name = ''X'', sequence_number = 1\<rparr>,
             \<lparr>ref_stop_id = ''HMRL_Y'', ref_name = ''Y'', sequence_number = 2\<rparr>]\<rparr>],
      stop_to_routes =
        stop_to_routes branch_artifacts @
        [(''HMRL_X'', [''HMRL_RED'']), (''HMRL_Y'', [''HMRL_RED''])],
      route_to_stops =
        route_to_stops branch_artifacts @
        [(''HMRL_RED'',
          [\<lparr>stop_id = ''HMRL_X'', name = ''X'', seq = 1\<rparr>,
           \<lparr>stop_id = ''HMRL_Y'', name = ''Y'', seq = 2\<rparr>])]\<rparr>"

text \<open>
  The bundle that loads into given tables; and three bundles that fail: one whose
  stops table has no \<^verbatim>\<open>stop_lat\<close> column, one with a stop at latitude 999, and
  one with no trips table.
\<close>

definition bundle_of :: "AgencyCode \<Rightarrow> LoadedFeed \<Rightarrow> FeedBundle" where
  "bundle_of code loaded =
     \<lparr>bundle_agency = code,
      agency_file = Parsed (agency_table loaded),
      stops_file = Parsed (stops_table loaded),
      routes_file = Parsed (routes_table loaded),
      trips_file = Parsed (trips_table loaded),
      stop_times_file = Parsed (stop_times_table loaded),
      calendar_file = (case calendar_table loaded of None \<Rightarrow> Missing | Some t \<Rightarrow> Parsed t)\<rparr>"

definition no_lat_bundle :: FeedBundle where
  "no_lat_bundle =
     (bundle_of ''MMTS'' metro_loaded)
       \<lparr>stops_file := Parsed ((stops_table metro_loaded)
                         \<lparr>table_columns := [''stop_id'', ''stop_name'', ''stop_lon'']\<rparr>)\<rparr>"

definition far_stop_bundle :: FeedBundle where
  "far_stop_bundle =
     (bundle_of ''MMTS'' metro_loaded)
       \<lparr>stops_file := Parsed \<lparr>table_columns = stops_columns, table_rows =
           [\<lparr>s_id = ''X'', s_name = ''X'', s_lat = 999, s_lon = 78.48\<rparr>]\<rparr>\<rparr>"

definition no_trips_bundle :: FeedBundle where
  "no_trips_bundle = (bundle_of ''HMRL'' metro_loaded)\<lparr>trips_file := Missing\<rparr>"

text \<open>
  Modelled from the spec: the uniqueness the Namespacer provides, "no two agencies ever
  produce colliding namespaced ids", for the stops of the feeds of one run.
\<close>

definition separate_stop_ids :: "Feed list \<Rightarrow> bool" where
  "separate_stop_ids feeds =
     (\<forall>f \<in> set feeds. \<forall>g \<in> set feeds.
        f = g \<or> set (map s_id (stops_txt f)) \<inter> set (map s_id (stops_txt g)) = {})"

chapter \<open>Properties\<close>

section \<open>Splitting and joining\<close>

lemma split_on_not_Nil: "split_on sep s \<noteq> []"
  by (induction s) (auto split: list.splits)

lemma join_with_Cons:
  "ws \<noteq> [] \<Longrightarrow> join_with sep (w # ws) = w @ sep # join_with sep ws"
  by (cases ws) simp_all

lemma join_split_on: "join_with sep (split_on sep s) = s"
proof (induction s)
  case Nil
  show ?case by simp
next
  case (Cons c cs)
  show ?case
  proof (cases "c = sep")
    case True
    with Cons show ?thesis
      by (simp add: join_with_Cons split_on_not_Nil)
  next
    case False
    obtain w ws where sp: "split_on sep cs = w # ws"
      using split_on_not_Nil [of sep cs] by (cases "split_on sep cs") auto
    have "join_with sep ((c # w) # ws) = c # join_with sep (w # ws)"
      by (cases ws) simp_all
    with Cons False sp show ?thesis by simp
  qed
qed

lemma split_on_prefix:
  "sep \<notin> set a \<Longrightarrow> split_on sep (a @ sep # s) = a # split_on sep s"
  by (induction a) auto

lemma parse_namespaced:
  assumes "CHR ''_'' \<notin> set a"
  shows "parseStopId (namespace_id a s) = \<lparr>ParsedId.agency = a, originalId = s\<rparr>"
    and "parseRouteId (namespace_id a s) = \<lparr>ParsedId.agency = a, originalId = s\<rparr>"
  using assms
  by (simp_all add: parseStopId_def parseRouteId_def namespace_id_def
      split_on_prefix join_split_on)

section \<open>Claims about lib/utils.ts\<close>

text \<open>
  C2. For each of the three agency codes \<open>a\<close> and every id string \<open>s\<close> (with or
  without underscores of its own), \<open>parseStopId\<close> and \<open>parseRouteId\<close> give back
  \<open>a\<close> and \<open>s\<close> from the namespaced id \<open>a + "_" + s\<close>.
\<close>

theorem parse_inverts_namespacing:
  "a \<in> set agency_codes \<Longrightarrow>
     parseStopId (namespace_id a s) = \<lparr>ParsedId.agency = a, originalId = s\<rparr> \<and>
     parseRouteId (namespace_id a s) = \<lparr>ParsedId.agency = a, originalId = s\<rparr>"
  using parse_namespaced [of a s] by (auto simp: agency_codes_def)

theorem parse_inverts_namespacing_witness:
  "''TGSRTC'' \<in> set agency_codes \<and>
   parseStopId ''TGSRTC_12_A_7'' = \<lparr>ParsedId.agency = ''TGSRTC'', originalId = ''12_A_7''\<rparr> \<and>
   parseRouteId ''TGSRTC_12_A_7'' = \<lparr>ParsedId.agency = ''TGSRTC'', originalId = ''12_A_7''\<rparr>"
  using parse_inverts_namespacing [of "''TGSRTC''" "''12_A_7''"]
  by (simp add: agency_codes_def namespace_id_def)

text \<open>
  C4. \<open>formatTime\<close> returns every non-empty time string unchanged, so formatting an
  already formatted time changes nothing.
\<close>

theorem formatTime_nonempty_unchanged:
  "t \<noteq> [] \<Longrightarrow> formatTime t = t \<and> formatTime (formatTime t) = formatTime t"
  by (simp add: formatTime_def)

theorem formatTime_nonempty_unchanged_witness:
  "''01:30'' \<noteq> [] \<and> formatTime ''01:30'' = ''01:30'' \<and>
   formatTime (formatTime ''01:30'') = formatTime ''01:30''"
  using formatTime_nonempty_unchanged [of "''01:30''"] by simp

text \<open>
  C6. \<open>getAgencyTransitType\<close> is a fixed table into the three categories: HMRL is
  metro, MMTS is rail, TGSRTC is bus, every other input is bus; it returns one of the
  three categories on every input, and the same category on equal inputs.
\<close>

theorem getAgencyTransitType_table:
  "getAgencyTransitType ''HMRL'' = Metro \<and>
   getAgencyTransitType ''MMTS'' = Rail \<and>
   getAgencyTransitType ''TGSRTC'' = Bus \<and>
   (a \<notin> set agency_codes \<longrightarrow> getAgencyTransitType a = Bus) \<and>
   getAgencyTransitType a \<in> {Metro, Rail, Bus} \<and>
   (a = b \<longrightarrow> getAgencyTransitType a = getAgencyTransitType b)"
  by (simp add: agency_codes_def)

theorem getAgencyTransitType_table_witness:
  "''BMTC'' \<notin> set agency_codes \<and> getAgencyTransitType ''BMTC'' = Bus \<and>
   getAgencyTransitType ''HMRL'' = Metro \<and>
   getAgencyTransitType ''MMTS'' = Rail \<and>
   getAgencyTransitType ''TGSRTC'' = Bus"
  using getAgencyTransitType_table [of "''BMTC''" "''BMTC''"]
  by (simp add: agency_codes_def)

section \<open>The reducer keeps the selection exclusive\<close>

lemma reducer_keeps_exclusive: "exclusive s \<Longrightarrow> exclusive (transitReducer s a)"
  by (cases a) (simp_all add: exclusive_def Let_def)

lemma foldl_keeps_exclusive: "exclusive s \<Longrightarrow> exclusive (foldl transitReducer s as)"
  by (induction as arbitrary: s) (simp_all add: reducer_keeps_exclusive)

lemma initial_exclusive: "exclusive initialState"
  by (simp add: exclusive_def initialState_def)

section \<open>The loader and its cache\<close>

lemma fetchJson_respond: "fetchJson f (respond f v) = Inr v"
  by (simp add: fetchJson_def respond_def)

lemma load_hit: "cachedData m = Some d \<Longrightarrow> loadTransitData server m = (Inr d, m)"
  by (simp add: loadTransitData_def)

lemma load_serving: "cachedData m = None \<Longrightarrow>
  loadTransitData (serving d) m = (Inr d, m\<lparr>cachedData := Some d\<rparr>)"
  by (simp add: loadTransitData_def serving_def fetchJson_respond Let_def)

lemma load_stores: "loadTransitData server m = (Inr d, m') \<Longrightarrow> cachedData m' = Some d"
  by (auto simp: loadTransitData_def Let_def split: option.splits sum.splits)

lemma load_failure: "loadTransitData server m = (Inl e, m') \<Longrightarrow> m' = m \<and> cachedData m = None"
  by (auto simp: loadTransitData_def Let_def split: option.splits sum.splits)

lemma load_keeps: "cachedData m \<noteq> None \<Longrightarrow> cachedData (snd (loadTransitData server m)) \<noteq> None"
  by (auto simp: loadTransitData_def)

lemma only_clearCache: "cachedData m \<noteq> None \<Longrightarrow> cachedData (after_call c m) = None \<Longrightarrow> c = ClearCache"
  by (cases c) (auto simp: loadTransitData_def)

section \<open>Claims about the data loader\<close>

text \<open>
  C5, as stated: the cached data is not held in module-level state shared by all
  callers. It is: after one caller has loaded the data of one directory, a load
  against a directory that holds other data (which the same call would fetch from an
  empty cache) returns the first caller's data.
\<close>

theorem cache_is_shared_counterexample:
  "fst (loadTransitData (serving no_data)
         (after_call (LoadTransitData (serving one_stop_data)) module_init)) = Inr one_stop_data \<and>
   one_stop_data \<noteq> no_data \<and>
   fst (loadTransitData (serving no_data) module_init) = Inr no_data"
  by (simp add: load_serving load_hit module_init_def one_stop_data_def no_data_def)

text \<open>
  C5, amended. The cache is the module-level variable \<open>cachedData\<close>, shared by every
  caller: when it holds data, \<open>loadTransitData\<close> returns that data whatever the
  server would answer, and leaves the module as it is; a load that succeeds leaves its
  data in the cache; a load that fails leaves the module unchanged; and among the
  exported functions only \<open>clearCache\<close> empties a cache that holds data.
\<close>

theorem cache_module_level:
  "(cachedData m = Some d \<longrightarrow> loadTransitData server m = (Inr d, m)) \<and>
   (loadTransitData server m = (Inr d, m') \<longrightarrow> cachedData m' = Some d) \<and>
   (loadTransitData server m = (Inl e, m') \<longrightarrow> m' = m) \<and>
   (cachedData m \<noteq> None \<and> cachedData (after_call c m) = None \<longrightarrow> c = ClearCache) \<and>
   cachedData (clearCache m) = None"
  using load_hit [of m d server] load_stores [of server m d m'] load_failure [of server m e m']
    only_clearCache [of m c]
  by (simp add: clearCache_def)

theorem cache_module_level_witness:
  "cachedData \<lparr>cachedData = Some one_stop_data\<rparr> = Some one_stop_data \<and>
   loadTransitData (serving no_data) \<lparr>cachedData = Some one_stop_data\<rparr> =
     (Inr one_stop_data, \<lparr>cachedData = Some one_stop_data\<rparr>) \<and>
   cachedData (after_call ClearCache \<lparr>cachedData = Some one_stop_data\<rparr>) = None \<and>
   loadTransitData ((serving no_data)\<lparr>routes_at := \<lambda>path. HttpResponse False ''Not Found'' None\<rparr>)
       module_init =
     (Inl (Error ''Failed to fetch routes.geojson: Not Found''), module_init)"
  using cache_module_level
      [of "\<lparr>cachedData = Some one_stop_data\<rparr>" one_stop_data "serving no_data"
          "\<lparr>cachedData = Some one_stop_data\<rparr>" "Error []" ClearCache]
    cache_module_level
      [of module_init no_data
          "(serving no_data)\<lparr>routes_at := \<lambda>path. HttpResponse False ''Not Found'' None\<rparr>"
          module_init "Error ''Failed to fetch routes.geojson: Not Found''" GetCachedData]
  by (simp add: loadTransitData_def module_init_def serving_def fetchJson_def respond_def
      getDataPath_def clearCache_def)

section \<open>Claims about the transit context\<close>

text \<open>
  C8. In every state reached from the initial state by a sequence of actions, the
  selected stop and the selected route are not both set: \<open>SELECT_STOP\<close> clears the
  route, \<open>SELECT_ROUTE\<close> clears the stop, \<open>CLEAR_SELECTION\<close> clears both, and
  every action keeps the property.
\<close>

theorem selection_mutually_exclusive:
  "exclusive (dispatch_all actions) \<and>
   selectedRoute (selection (transitReducer s (SELECT_STOP p))) = None \<and>
   selectedStop (selection (transitReducer s (SELECT_ROUTE p))) = None \<and>
   selectedStop (selection (transitReducer s CLEAR_SELECTION)) = None \<and>
   selectedRoute (selection (transitReducer s CLEAR_SELECTION)) = None \<and>
   (exclusive s \<longrightarrow> exclusive (transitReducer s a))"
  by (simp add: dispatch_all_def foldl_keeps_exclusive initial_exclusive
      reducer_keeps_exclusive Let_def)

theorem selection_mutually_exclusive_witness:
  "exclusive (dispatch_all [SET_DATA one_stop_data, SELECT_STOP (Some ''HMRL_MGBS''),
                            TOGGLE_FILTER Bus, SELECT_ROUTE (Some ''HMRL_RED'')]) \<and>
   exclusive (transitReducer (initialState :: unit TransitState) (SELECT_STOP (Some ''HMRL_MGBS''))) \<and>
   exclusive (transitReducer (transitReducer (initialState :: unit TransitState)
                (SELECT_STOP (Some ''HMRL_MGBS''))) (SET_LOADING False)) \<and>
   selectedStop (selection (transitReducer (initialState :: unit TransitState)
                (SELECT_STOP (Some ''HMRL_MGBS'')))) = Some ''HMRL_MGBS''"
  using selection_mutually_exclusive
    [of "[SET_DATA one_stop_data, SELECT_STOP (Some ''HMRL_MGBS''),
          TOGGLE_FILTER Bus, SELECT_ROUTE (Some ''HMRL_RED'')]"
        "transitReducer (initialState :: unit TransitState) (SELECT_STOP (Some ''HMRL_MGBS''))"
        "Some ''HMRL_MGBS''" "SET_LOADING False"]
  by (simp add: exclusive_def initialState_def Let_def)

text \<open>
  C9. With no visible route recorded, \<open>isRouteVisible\<close> holds of every route id;
  otherwise it holds of exactly the recorded ones.
\<close>

theorem empty_visibleRoutes_shows_all:
  "(visibleRoutes s = {} \<longrightarrow> isRouteVisible s r) \<and>
   (visibleRoutes s \<noteq> {} \<longrightarrow> isRouteVisible s r = (r \<in> visibleRoutes s))"
  by (simp add: isRouteVisible_def)

theorem empty_visibleRoutes_shows_all_witness:
  "visibleRoutes (initialState :: unit TransitState) = {} \<and>
   isRouteVisible (initialState :: unit TransitState) ''TGSRTC_218'' \<and>
   visibleRoutes (transitReducer (initialState :: unit TransitState) (SELECT_ROUTE (Some ''HMRL_RED''))) \<noteq> {} \<and>
   isRouteVisible (transitReducer (initialState :: unit TransitState) (SELECT_ROUTE (Some ''HMRL_RED''))) ''HMRL_RED'' \<and>
   \<not> isRouteVisible (transitReducer (initialState :: unit TransitState) (SELECT_ROUTE (Some ''HMRL_RED''))) ''TGSRTC_218''"
  using empty_visibleRoutes_shows_all [of "initialState :: unit TransitState" "''TGSRTC_218''"]
    empty_visibleRoutes_shows_all
      [of "transitReducer (initialState :: unit TransitState) (SELECT_ROUTE (Some ''HMRL_RED''))" "''HMRL_RED''"]
    empty_visibleRoutes_shows_all
      [of "transitReducer (initialState :: unit TransitState) (SELECT_ROUTE (Some ''HMRL_RED''))" "''TGSRTC_218''"]
  by (simp add: initialState_def)

section \<open>Claims about the route layer\<close>

text \<open>
  C10. \<open>RoutePolyline\<close> returns \<open>Null\<close> for a route whose geometry or coordinates
  are missing or whose coordinates are fewer than two pairs; for every other route it
  returns a polyline through the coordinates (latitude first), so a polyline is
  drawn only from two coordinates or more.
\<close>

theorem RoutePolyline_degenerate_null:
  "(degenerate route \<longrightarrow> RoutePolyline route h = Null) \<and>
   (\<not> degenerate route \<longrightarrow>
      (\<exists>g cs opts rid tip.
         geometry route = Some g \<and> GeoJSONLineString.coordinates g = Some cs \<and> 2 \<le> length cs \<and>
         RoutePolyline route h = Polyline (map (\<lambda>(lng, lat). (lat, lng)) cs) opts rid tip))"
  by (auto simp: degenerate_def RoutePolyline_def Let_def split: option.splits)

theorem RoutePolyline_degenerate_null_witness:
  "degenerate (example_route None) \<and> RoutePolyline (example_route None) False = Null \<and>
   degenerate (example_route (Some [(78.4, 17.4)])) \<and>
   RoutePolyline (example_route (Some [(78.4, 17.4)])) True = Null \<and>
   \<not> degenerate (example_route (Some [(78.4, 17.4), (78.41, 17.41)])) \<and>
   RoutePolyline (example_route (Some [(78.4, 17.4), (78.41, 17.41)])) True =
     Polyline [(17.4, 78.4), (17.41, 78.41)]
       \<lparr>color = ''#FF0000'', weight = 7, opacity = 1, dashArray = None\<rparr>
       ''HMRL_RED'' ''metro Red Line''"
  using RoutePolyline_degenerate_null [of "example_route None" False]
    RoutePolyline_degenerate_null [of "example_route (Some [(78.4, 17.4)])" True]
    RoutePolyline_degenerate_null [of "example_route (Some [(78.4, 17.4), (78.41, 17.41)])" True]
  by (simp add: degenerate_def example_route_def RoutePolyline_def Let_def as_TransitType_def
      getRouteLineOptions_def or_else_def tooltip_text_def TRANSIT_ICONS_def TRANSIT_COLORS_def)


section \<open>Timetable buckets\<close>

lemma sorted_bucket_entries: "sorted (map fst (bucket_entries raw))"
  by (simp add: bucket_entries_def sorted_sort_key)

lemma dedupe_labels_fresh: "e \<in> set (dedupe_labels seen es) \<Longrightarrow> snd e \<notin> set seen"
proof (induction es arbitrary: seen)
  case Nil
  then show ?case by simp
next
  case (Cons a es)
  show ?case
  proof (cases "snd a \<in> set seen")
    case True
    with Cons.prems have "e \<in> set (dedupe_labels seen es)" by simp
    then show ?thesis by (rule Cons.IH)
  next
    case False
    with Cons.prems have "e = a \<or> e \<in> set (dedupe_labels (snd a # seen) es)" by simp
    then show ?thesis
    proof
      assume "e = a"
      with False show ?thesis by simp
    next
      assume "e \<in> set (dedupe_labels (snd a # seen) es)"
      then have "snd e \<notin> set (snd a # seen)" by (rule Cons.IH)
      then show ?thesis by simp
    qed
  qed
qed

lemma dedupe_labels_distinct: "distinct (map snd (dedupe_labels seen es))"
proof (induction es arbitrary: seen)
  case Nil
  show ?case by simp
next
  case (Cons a es)
  have "snd a \<notin> snd ` set (dedupe_labels (snd a # seen) es)"
  proof
    assume "snd a \<in> snd ` set (dedupe_labels (snd a # seen) es)"
    then obtain e where e: "e \<in> set (dedupe_labels (snd a # seen) es)" and "snd e = snd a"
      by auto
    from e have "snd e \<notin> set (snd a # seen)" by (rule dedupe_labels_fresh)
    with \<open>snd e = snd a\<close> show False by simp
  qed
  with Cons show ?case by simp
qed

lemma distinct_bucket_times: "distinct (bucket_times raw)"
proof -
  let ?es = "dedupe_labels [] (collect_times raw)"
  have d: "distinct (map snd ?es)" by (rule dedupe_labels_distinct)
  then have "distinct ?es \<and> inj_on snd (set ?es)" by (simp add: distinct_map)
  then show ?thesis
    by (simp add: bucket_times_def bucket_entries_def distinct_map)
qed

lemma dedupe_labels_subset: "set (dedupe_labels seen es) \<subseteq> set es"
  by (induction es arbitrary: seen) auto

lemma bucket_entries_collected: "set (bucket_entries raw) \<subseteq> set (collect_times raw)"
  by (simp add: bucket_entries_def dedupe_labels_subset)

lemma late_feed_timetable:
  "timetable_entry late_feed ''HMRL_MGBS'' ''HMRL_RED'' =
     \<lparr>weekday = [''23:50'', ''01:10''], weekend = []\<rparr>"
  by (simp add: timetable_entry_def late_feed_def departures_def runs_on_def bucket_times_def
      bucket_entries_def collect_times_def parse_gtfs_time_def parse_int_def digit_val_def digit_table_def
      display_label_def pad2_def digit_char_def original_value_def)

lemma normalize_time_examples:
  "normalize_time ''25:30:00'' = Some ''01:30''"
  "normalize_time ''23:50:00'' = Some ''23:50''"
  "normalize_time ''01:30'' = None"
  by (simp_all add: normalize_time_def parse_gtfs_time_def parse_int_def digit_val_def
      digit_table_def display_label_def pad2_def digit_char_def)

lemma late_times_collected:
  "collect_times [''25:10:00'', ''23:50:00''] = [(90600, ''01:10''), (85800, ''23:50'')]"
  by (simp add: collect_times_def parse_gtfs_time_def parse_int_def digit_val_def digit_table_def
      display_label_def pad2_def digit_char_def original_value_def)

section \<open>Stops, routes and the index tables\<close>

lemma namespace_branch_loaded: "namespace_feed ''TGSRTC'' branch_loaded = branch_feed"
  by (simp add: namespace_feed_def branch_loaded_def branch_feed_def namespace_id_def)

lemma process_branch_feed:
  "process_feed branch_feed = (stop_collection branch_artifacts, route_collection branch_artifacts)"
  by code_simp

lemma process_metro_loaded:
  "process_feed (namespace_feed ''HMRL'' metro_loaded) =
     ([\<lparr>stop_ident = ''HMRL_X'', stop_label = ''X'', route_ids = [''HMRL_RED'']\<rparr>,
       \<lparr>stop_ident = ''HMRL_Y'', stop_label = ''Y'', route_ids = [''HMRL_RED'']\<rparr>],
      [\<lparr>route_ident = ''HMRL_RED'', route_label = ''Red Line'',
        ordered_stops =
          [\<lparr>ref_stop_id = ''HMRL_X'', ref_name = ''X'', sequence_number = 1\<rparr>,
           \<lparr>ref_stop_id = ''HMRL_Y'', ref_name = ''Y'', sequence_number = 2\<rparr>]\<rparr>])"
  by code_simp

lemma output_branch: "pipeline_output [(''TGSRTC'', branch_loaded)] = Inr branch_artifacts"
  by (simp add: pipeline_output_def namespace_branch_loaded process_branch_feed assemble_def
      integrity_ok_def branch_artifacts_def Let_def)

lemma output_both:
  "pipeline_output [(''TGSRTC'', branch_loaded), (''HMRL'', metro_loaded)] = Inr both_artifacts"
  by (simp add: pipeline_output_def namespace_branch_loaded process_branch_feed
      process_metro_loaded assemble_def integrity_ok_def both_artifacts_def
      branch_artifacts_def Let_def)

lemma drop_dangling_tables:
  "stops_txt (drop_dangling f) = stops_txt f"
  "routes_txt (drop_dangling f) = routes_txt f"
  by (simp_all add: drop_dangling_def Let_def)

lemma drop_dangling_trips:
  "t \<in> set (trips_txt (drop_dangling f)) \<longleftrightarrow>
     t \<in> set (trips_txt f) \<and> t_route t \<in> r_id ` set (routes_txt f)"
  by (auto simp: drop_dangling_def Let_def)

lemma drop_dangling_times:
  "st \<in> set (stop_times_txt (drop_dangling f)) \<longleftrightarrow>
     st \<in> set (stop_times_txt f) \<and>
     st_trip st \<in> t_id ` set (trips_txt (drop_dangling f)) \<and>
     st_stop st \<in> s_id ` set (stops_txt f)"
  by (auto simp: drop_dangling_def Let_def)

lemma prune_dropped_stops: "stops_txt (prune_dropped g) = stops_txt g"
  by (simp add: prune_dropped_def drop_dangling_tables)

lemma prune_dropped_trips:
  "t \<in> set (trips_txt (prune_dropped g)) \<longleftrightarrow>
     t \<in> set (trips_txt g) \<and>
     (\<exists>row \<in> set (routes_txt g). build_route g row \<noteq> None \<and> r_id row = t_route t)"
  by (force simp: prune_dropped_def drop_dangling_trips)

lemma prune_dropped_times:
  "st \<in> set (stop_times_txt (prune_dropped g)) \<longleftrightarrow>
     st \<in> set (stop_times_txt g) \<and>
     st_trip st \<in> t_id ` set (trips_txt (prune_dropped g)) \<and>
     st_stop st \<in> s_id ` set (stops_txt g)"
  unfolding prune_dropped_def by (subst drop_dangling_times) simp

lemma resolve_stops_route_ids:
  "s \<in> set (resolve_stops f) \<Longrightarrow> route_ids s = routes_serving f (stop_ident s)"
  by (auto simp: resolve_stops_def)

lemma resolve_stops_known:
  "s \<in> set (resolve_stops f) \<Longrightarrow> stop_ident s \<in> s_id ` set (stops_txt f)"
  by (auto simp: resolve_stops_def)

lemma resolve_stops_member:
  "row \<in> set (stops_txt f) \<Longrightarrow> st \<in> set (stop_times_txt f) \<Longrightarrow> st_stop st = s_id row \<Longrightarrow>
   \<lparr>stop_ident = s_id row, stop_label = s_name row, route_ids = routes_serving f (s_id row)\<rparr>
     \<in> set (resolve_stops f)"
  by (auto simp: resolve_stops_def list_ex_iff)

lemma routes_serving_member:
  "t \<in> set (trips_txt f) \<Longrightarrow> st \<in> set (stop_times_txt f) \<Longrightarrow> st_trip st = t_id t \<Longrightarrow>
   t_route t \<in> set (routes_serving f (st_stop st))"
  by (auto simp: routes_serving_def)

lemma routes_serving_trip:
  "r \<in> set (routes_serving f x) \<Longrightarrow> \<exists>t \<in> set (trips_txt f). t_route t = r"
  by (auto simp: routes_serving_def)

lemma best_trip_member: "best_trip f ts = Some t \<Longrightarrow> t \<in> set ts"
  by (induction ts arbitrary: t) (auto split: option.splits if_splits)

lemma build_route_sound:
  assumes "build_route f row = Some r"
  shows "route_ident r = r_id row"
    and "\<exists>t \<in> set (trips_txt f). t_route t = r_id row \<and>
           ref_stop_id ` set (ordered_stops r) = st_stop ` set (trip_rows f (t_id t))"
    and "2 \<le> length (ordered_stops r)"
proof -
  from assms obtain t where rep: "representative_trip f (r_id row) = Some t"
    by (auto simp: build_route_def split: option.splits)
  with assms have r: "r = \<lparr>route_ident = r_id row, route_label = r_name row,
      ordered_stops = map (\<lambda>st. \<lparr>ref_stop_id = st_stop st,
         ref_name = stop_name_of f (st_stop st), sequence_number = st_sequence st\<rparr>)
         (sort_key st_sequence (trip_rows f (t_id t)))\<rparr>"
    and long: "\<not> length (trip_rows f (t_id t)) < 2"
    by (auto simp: build_route_def Let_def split: if_splits)
  show "route_ident r = r_id row" by (simp add: r)
  from long show "2 \<le> length (ordered_stops r)" by (simp add: r)
  from rep have "t \<in> set (filter (\<lambda>t. t_route t = r_id row) (trips_txt f))"
    unfolding representative_trip_def by (rule best_trip_member)
  then have "t \<in> set (trips_txt f)" "t_route t = r_id row" by simp_all
  moreover have "ref_stop_id ` set (ordered_stops r) = st_stop ` set (trip_rows f (t_id t))"
    by (simp add: r image_image)
  ultimately show "\<exists>t \<in> set (trips_txt f). t_route t = r_id row \<and>
           ref_stop_id ` set (ordered_stops r) = st_stop ` set (trip_rows f (t_id t))"
    by blast
qed

lemma build_routes_member:
  "r \<in> set (build_routes f) \<longleftrightarrow> (\<exists>row \<in> set (routes_txt f). build_route f row = Some r)"
  by (force simp: build_routes_def split: option.splits)

lemma kept_routes_retained:
  assumes "s \<in> set (resolve_stops (prune_dropped g))" "r \<in> set (route_ids s)"
  shows "r \<in> route_ident ` set (build_routes g)"
proof -
  from assms have "r \<in> set (routes_serving (prune_dropped g) (stop_ident s))"
    by (simp add: resolve_stops_route_ids)
  then obtain t where "t \<in> set (trips_txt (prune_dropped g))" "t_route t = r"
    using routes_serving_trip by blast
  then obtain row where row: "row \<in> set (routes_txt g)" "build_route g row \<noteq> None" "r_id row = r"
    by (auto simp: prune_dropped_trips)
  then obtain r' where r': "build_route g row = Some r'" by auto
  with row(1) have "r' \<in> set (build_routes g)" by (auto simp: build_routes_member)
  moreover from build_route_sound(1) [OF r'] row(3) have "route_ident r' = r" by simp
  ultimately show ?thesis by blast
qed

lemma listed_stop_exists:
  assumes r: "r \<in> set (build_routes (drop_dangling f))"
    and x: "x \<in> ref_stop_id ` set (ordered_stops r)"
  shows "\<exists>s \<in> set (resolve_stops (prune_dropped (drop_dangling f))).
           stop_ident s = x \<and> route_ident r \<in> set (route_ids s)"
proof -
  let ?g = "drop_dangling f" and ?h = "prune_dropped (drop_dangling f)"
  from r obtain row where row: "row \<in> set (routes_txt ?g)" "build_route ?g row = Some r"
    by (auto simp: build_routes_member)
  from build_route_sound [OF row(2)] obtain t where t: "t \<in> set (trips_txt ?g)"
    "t_route t = r_id row" "route_ident r = r_id row"
    "ref_stop_id ` set (ordered_stops r) = st_stop ` set (trip_rows ?g (t_id t))"
    by auto
  from x t(4) obtain st where st: "st \<in> set (stop_times_txt ?g)" "st_trip st = t_id t"
    "st_stop st = x"
    by (auto simp: trip_rows_def)
  from t(1) t(2) row have t': "t \<in> set (trips_txt ?h)"
    by (auto simp: prune_dropped_trips)
  from st(1) have known: "st_stop st \<in> s_id ` set (stops_txt ?g)"
    by (simp add: drop_dangling_times drop_dangling_tables)
  with st(1) st(2) t' have st': "st \<in> set (stop_times_txt ?h)"
    by (subst prune_dropped_times) auto
  from known obtain srow where srow: "srow \<in> set (stops_txt ?h)" "s_id srow = st_stop st"
    by (auto simp: prune_dropped_stops)
  let ?s = "\<lparr>stop_ident = s_id srow, stop_label = s_name srow,
             route_ids = routes_serving ?h (s_id srow)\<rparr>"
  have "?s \<in> set (resolve_stops ?h)"
    using resolve_stops_member [OF srow(1) st' srow(2) [symmetric]] .
  moreover have "stop_ident ?s = x" using srow(2) st(3) by simp
  moreover from routes_serving_member [OF t' st' st(2)] t(2) t(3) srow(2)
  have "route_ident r \<in> set (route_ids ?s)" by simp
  ultimately show ?thesis by blast
qed

lemma listed_stop_served:
  assumes "s \<in> set (resolve_stops (prune_dropped (drop_dangling f)))"
    and "r \<in> set (build_routes (drop_dangling f))"
    and "stop_ident s \<in> ref_stop_id ` set (ordered_stops r)"
  shows "route_ident r \<in> set (route_ids s)"
proof -
  from listed_stop_exists [OF assms(2) assms(3)] obtain s' where
    s': "s' \<in> set (resolve_stops (prune_dropped (drop_dangling f)))"
    "stop_ident s' = stop_ident s" "route_ident r \<in> set (route_ids s')"
    by blast
  from s'(1) s'(2) assms(1) have "route_ids s' = route_ids s"
    by (simp add: resolve_stops_route_ids)
  with s'(3) show ?thesis by simp
qed

lemma processed_stop_known:
  "s \<in> set (fst (process_feed f)) \<Longrightarrow> stop_ident s \<in> s_id ` set (stops_txt f)"
  using resolve_stops_known [of s "prune_dropped (drop_dangling f)"]
  by (simp add: process_feed_def Let_def prune_dropped_stops drop_dangling_tables)

lemma processed_route_stops_known:
  assumes "r \<in> set (snd (process_feed f))"
  shows "ref_stop_id ` set (ordered_stops r) \<subseteq> s_id ` set (stops_txt f)"
proof
  fix x assume "x \<in> ref_stop_id ` set (ordered_stops r)"
  with assms obtain s where "s \<in> set (resolve_stops (prune_dropped (drop_dangling f)))"
    "stop_ident s = x"
    using listed_stop_exists [of r f x] by (auto simp: process_feed_def Let_def)
  then show "x \<in> s_id ` set (stops_txt f)"
    using processed_stop_known [of s f] by (simp add: process_feed_def Let_def)
qed

lemma integrity_of_processed:
  "integrity_ok (concat (map fst (map process_feed fs))) (concat (map snd (map process_feed fs)))"
proof -
  have a: "r \<in> route_ident ` set (concat (map snd (map process_feed fs)))"
    if "s \<in> set (concat (map fst (map process_feed fs)))" "r \<in> set (route_ids s)" for s r
  proof -
    from that(1) obtain f where f: "f \<in> set fs"
      "s \<in> set (resolve_stops (prune_dropped (drop_dangling f)))"
      by (auto simp: process_feed_def Let_def)
    from kept_routes_retained [OF f(2) that(2)] f(1) show ?thesis
      by (force simp: process_feed_def Let_def)
  qed
  have b: "\<exists>s \<in> set (concat (map fst (map process_feed fs))). route_ident r \<in> set (route_ids s)"
    if "r \<in> set (concat (map snd (map process_feed fs)))" for r
  proof -
    from that obtain f where f: "f \<in> set fs" "r \<in> set (build_routes (drop_dangling f))"
      by (auto simp: process_feed_def Let_def)
    from f(2) obtain row where "build_route (drop_dangling f) row = Some r"
      by (auto simp: build_routes_member)
    then have "ordered_stops r \<noteq> []" using build_route_sound(3) [of "drop_dangling f" row r] by auto
    then obtain x where "x \<in> ref_stop_id ` set (ordered_stops r)"
      by (cases "ordered_stops r") auto
    from listed_stop_exists [OF f(2) this] f(1) show ?thesis
      by (force simp: process_feed_def Let_def)
  qed
  show ?thesis
    unfolding integrity_ok_def list_all_iff list_ex_iff set_map using a b by blast
qed

lemma assemble_processed:
  "assemble (map process_feed fs) =
     Inr \<lparr>stop_collection = concat (map fst (map process_feed fs)),
          route_collection = concat (map snd (map process_feed fs)),
          stop_to_routes =
            map (\<lambda>s. (stop_ident s, route_ids s)) (concat (map fst (map process_feed fs))),
          route_to_stops =
            map (\<lambda>r. (route_ident r,
                       map (\<lambda>sr. \<lparr>stop_id = ref_stop_id sr, name = ref_name sr,
                                    seq = sequence_number sr\<rparr>) (ordered_stops r)))
              (concat (map snd (map process_feed fs)))\<rparr>"
  using integrity_of_processed [of fs] by (simp add: assemble_def Let_def)

lemma pipeline_output_assemble:
  "pipeline_output agencies =
     assemble (map process_feed (map (\<lambda>(code, loaded). namespace_feed code loaded) agencies))"
  by (simp add: pipeline_output_def case_prod_unfold comp_def)

lemma pipeline_output_total: "\<exists>out. pipeline_output agencies = Inr out"
  unfolding pipeline_output_assemble by (rule exI, rule assemble_processed)

lemma namespace_id_code:
  assumes "CHR ''_'' \<notin> set a" "CHR ''_'' \<notin> set b" "namespace_id a x = namespace_id b y"
  shows "a = b"
proof -
  have "parseStopId (namespace_id a x) = \<lparr>ParsedId.agency = a, originalId = x\<rparr>"
    using assms(1) by (rule parse_namespaced)
  moreover have "parseStopId (namespace_id b y) = \<lparr>ParsedId.agency = b, originalId = y\<rparr>"
    using assms(2) by (rule parse_namespaced)
  ultimately have "\<lparr>ParsedId.agency = a, originalId = x\<rparr> = \<lparr>ParsedId.agency = b, originalId = y\<rparr>"
    by (simp only: assms(3))
  then show ?thesis by simp
qed

lemma namespace_feed_stop_ids:
  "s_id ` set (stops_txt (namespace_feed code loaded)) =
     namespace_id code ` s_id ` set (table_rows (stops_table loaded))"
  by (simp add: namespace_feed_def image_image)

lemma separate_namespaced:
  assumes d: "distinct (map fst agencies)"
    and u: "\<forall>code \<in> set (map fst agencies). CHR ''_'' \<notin> set code"
  shows "separate_stop_ids (map (\<lambda>(code, loaded). namespace_feed code loaded) agencies)"
  unfolding separate_stop_ids_def
proof (intro ballI)
  fix f g
  assume "f \<in> set (map (\<lambda>(code, loaded). namespace_feed code loaded) agencies)"
    and "g \<in> set (map (\<lambda>(code, loaded). namespace_feed code loaded) agencies)"
  then obtain a la b lb where a: "(a, la) \<in> set agencies" "f = namespace_feed a la"
    and b: "(b, lb) \<in> set agencies" "g = namespace_feed b lb"
    by auto
  show "f = g \<or> set (map s_id (stops_txt f)) \<inter> set (map s_id (stops_txt g)) = {}"
  proof (cases "a = b")
    case True
    with d a(1) b(1) have "la = lb" by (metis eq_key_imp_eq_value)
    with True a(2) b(2) show ?thesis by simp
  next
    case False
    have "set (map s_id (stops_txt f)) \<inter> set (map s_id (stops_txt g)) = {}"
    proof (rule ccontr)
      assume "set (map s_id (stops_txt f)) \<inter> set (map s_id (stops_txt g)) \<noteq> {}"
      then obtain x y where "namespace_id a x = namespace_id b y"
        using a(2) b(2) by (auto simp: namespace_feed_stop_ids)
      moreover from u a(1) b(1) have "CHR ''_'' \<notin> set a" "CHR ''_'' \<notin> set b" by force+
      ultimately have "a = b" by (metis namespace_id_code)
      with False show False by simp
    qed
    then show ?thesis by simp
  qed
qed

lemma merged_stop_routes:
  assumes sep: "separate_stop_ids feeds"
    and s: "s \<in> set (concat (map fst (map process_feed feeds)))"
    and s': "s' \<in> set (concat (map fst (map process_feed feeds)))"
    and same: "stop_ident s' = stop_ident s"
  shows "route_ids s' = route_ids s"
proof -
  from s obtain f where f: "f \<in> set feeds" "s \<in> set (fst (process_feed f))" by auto
  from s' obtain g where g: "g \<in> set feeds" "s' \<in> set (fst (process_feed g))" by auto
  from f(2) have "stop_ident s \<in> s_id ` set (stops_txt f)" by (rule processed_stop_known)
  moreover from g(2) same have "stop_ident s \<in> s_id ` set (stops_txt g)"
    using processed_stop_known [of s' g] by simp
  ultimately have "f = g"
    using sep f(1) g(1) unfolding separate_stop_ids_def by fastforce
  with f(2) g(2) same show ?thesis
    by (simp add: process_feed_def Let_def resolve_stops_route_ids)
qed

lemma merged_stop_served:
  assumes sep: "separate_stop_ids feeds"
    and s: "s \<in> set (concat (map fst (map process_feed feeds)))"
    and r: "r \<in> set (concat (map snd (map process_feed feeds)))"
    and listed: "stop_ident s \<in> ref_stop_id ` set (ordered_stops r)"
  shows "route_ident r \<in> set (route_ids s)"
proof -
  from s obtain f where f: "f \<in> set feeds" "s \<in> set (fst (process_feed f))" by auto
  from r obtain g where g: "g \<in> set feeds" "r \<in> set (snd (process_feed g))" by auto
  from f(2) have "stop_ident s \<in> s_id ` set (stops_txt f)" by (rule processed_stop_known)
  moreover from g(2) listed have "stop_ident s \<in> s_id ` set (stops_txt g)"
    using processed_route_stops_known [of r g] by blast
  ultimately have "f = g"
    using sep f(1) g(1) unfolding separate_stop_ids_def by fastforce
  with f(2) g(2) listed show ?thesis
    by (simp add: process_feed_def Let_def listed_stop_served)
qed

lemma merged_listed_exists:
  assumes r: "r \<in> set (concat (map snd (map process_feed feeds)))"
    and x: "x \<in> ref_stop_id ` set (ordered_stops r)"
  shows "\<exists>s \<in> set (concat (map fst (map process_feed feeds))).
           stop_ident s = x \<and> route_ident r \<in> set (route_ids s)"
proof -
  from r obtain g where g: "g \<in> set feeds" "r \<in> set (build_routes (drop_dangling g))"
    by (auto simp: process_feed_def Let_def)
  from listed_stop_exists [OF g(2) x] g(1) show ?thesis
    by (force simp: process_feed_def Let_def)
qed

lemma map_of_pairs_Some:
  "map_of (map (\<lambda>s. (k s, v s)) ss) x = Some y \<Longrightarrow> \<exists>s \<in> set ss. k s = x \<and> v s = y"
  by (induction ss) (auto split: if_splits)

lemma map_of_pairs_dom:
  "s \<in> set ss \<Longrightarrow> \<exists>y. map_of (map (\<lambda>s. (k s, v s)) ss) (k s) = Some y"
  by (induction ss) auto

lemma assemble_Inr:
  assumes "assemble per_agency = Inr out"
  shows "stop_collection out = concat (map fst per_agency)"
    and "route_collection out = concat (map snd per_agency)"
    and "stop_to_routes out = map (\<lambda>s. (stop_ident s, route_ids s)) (stop_collection out)"
    and "route_to_stops out =
           map (\<lambda>r. (route_ident r,
                      map (\<lambda>sr. \<lparr>stop_id = ref_stop_id sr, name = ref_name sr,
                                   seq = sequence_number sr\<rparr>) (ordered_stops r)))
               (route_collection out)"
    and "integrity_ok (stop_collection out) (route_collection out)"
  using assms by (auto simp: assemble_def Let_def split: if_splits)

lemma listed_route:
  assumes "route_to_stops out =
           map (\<lambda>r. (route_ident r,
                      map (\<lambda>sr. \<lparr>stop_id = ref_stop_id sr, name = ref_name sr,
                                   seq = sequence_number sr\<rparr>) (ordered_stops r)))
               (route_collection out)"
    and "x \<in> set (stop_ids_of out r)"
  shows "\<exists>r' \<in> set (route_collection out). route_ident r' = r \<and>
           x \<in> ref_stop_id ` set (ordered_stops r')"
proof -
  from assms(2) obtain infos where infos: "map_of (route_to_stops out) r = Some infos"
    "x \<in> RouteStopInfo.stop_id ` set infos"
    by (cases "map_of (route_to_stops out) r") (simp_all add: stop_ids_of_def)
  from infos(1) obtain r' where r': "r' \<in> set (route_collection out)" "route_ident r' = r"
    "map (\<lambda>sr. \<lparr>stop_id = ref_stop_id sr, name = ref_name sr,
                 seq = sequence_number sr\<rparr>) (ordered_stops r') = infos"
    unfolding assms(1) using map_of_pairs_Some by fastforce
  from r'(3) infos(2) have "x \<in> ref_stop_id ` set (ordered_stops r')" by auto
  with r'(1) r'(2) show ?thesis by blast
qed

section \<open>The run over the feeds\<close>

lemma run_feeds_passed:
  "map fst (fst (run_feeds unsafe bs)) = map bundle_agency (filter (feed_succeeds unsafe) bs)"
  by (induction bs) (auto simp: feed_succeeds_def split: prod.splits sum.splits)

lemma run_feeds_failed:
  "map fst (snd (run_feeds unsafe bs)) =
     map bundle_agency (filter (\<lambda>b. \<not> feed_succeeds unsafe b) bs)"
  by (induction bs) (auto simp: feed_succeeds_def split: prod.splits sum.splits)

lemma run_feeds_append:
  "run_feeds unsafe (bs1 @ bs2) =
     (fst (run_feeds unsafe bs1) @ fst (run_feeds unsafe bs2),
      snd (run_feeds unsafe bs1) @ snd (run_feeds unsafe bs2))"
  by (induction bs1) (auto split: prod.splits sum.splits)

lemma run_feeds_skip:
  "\<not> feed_succeeds unsafe bad \<Longrightarrow>
   fst (run_feeds unsafe (bs1 @ bad # bs2)) = fst (run_feeds unsafe (bs1 @ bs2))"
  by (simp add: run_feeds_append feed_succeeds_def split: prod.splits sum.splits)

lemma run_feeds_nonempty:
  "(fst (run_feeds unsafe bs) \<noteq> []) = (\<exists>b \<in> set bs. feed_succeeds unsafe b)"
proof -
  have "(fst (run_feeds unsafe bs) = []) = (map fst (fst (run_feeds unsafe bs)) = [])"
    by simp
  also have "\<dots> = (filter (feed_succeeds unsafe) bs = [])"
    by (simp only: run_feeds_passed map_is_Nil_conv)
  finally show ?thesis by (auto simp: filter_empty_conv)
qed

lemma selected_feeds_append:
  "selected_feeds allow (bs1 @ bs2) = selected_feeds allow bs1 @ selected_feeds allow bs2"
  by (cases allow) (simp_all add: selected_feeds_def)

lemma selected_feeds_skip:
  "\<not> feed_succeeds unsafe bad \<Longrightarrow>
   fst (run_feeds unsafe (selected_feeds allow (bs1 @ bad # bs2))) =
   fst (run_feeds unsafe (selected_feeds allow (bs1 @ bs2)))"
proof -
  assume bad: "\<not> feed_succeeds unsafe bad"
  have "selected_feeds allow (bad # bs2) = bad # selected_feeds allow bs2 \<or>
        selected_feeds allow (bad # bs2) = selected_feeds allow bs2"
    by (cases allow) (simp_all add: selected_feeds_def)
  then show ?thesis
    using run_feeds_skip [OF bad, of "selected_feeds allow bs1" "selected_feeds allow bs2"]
    by (auto simp: selected_feeds_append)
qed

lemma run_pipeline_cases:
  "run_pipeline unsafe allow bundles =
     (let passed = fst (run_feeds unsafe (selected_feeds allow bundles));
          failed = snd (run_feeds unsafe (selected_feeds allow bundles))
      in if passed = []
         then \<lparr>written = None, failures = failed, aborted = None, exit_code = 1\<rparr>
         else (case pipeline_output passed of
                 Inl e \<Rightarrow> \<lparr>written = None, failures = failed, aborted = Some e, exit_code = 1\<rparr>
               | Inr out \<Rightarrow>
                   \<lparr>written = Some out, failures = failed, aborted = None, exit_code = 0\<rparr>))"
  by (cases "run_feeds unsafe (selected_feeds allow bundles)") (simp add: run_pipeline_def Let_def)

lemma run_pipeline_succeeds:
  assumes "fst (run_feeds unsafe (selected_feeds allow bundles)) \<noteq> []"
  shows "\<exists>out. pipeline_output (fst (run_feeds unsafe (selected_feeds allow bundles))) = Inr out \<and>
           run_pipeline unsafe allow bundles =
             \<lparr>written = Some out,
              failures = snd (run_feeds unsafe (selected_feeds allow bundles)),
              aborted = None, exit_code = 0\<rparr>"
proof -
  obtain out where "pipeline_output (fst (run_feeds unsafe (selected_feeds allow bundles))) = Inr out"
    using pipeline_output_total by blast
  with assms show ?thesis by (simp add: run_pipeline_cases Let_def)
qed

lemma run_pipeline_fails:
  assumes "fst (run_feeds unsafe (selected_feeds allow bundles)) = []"
  shows "run_pipeline unsafe allow bundles =
           \<lparr>written = None, failures = snd (run_feeds unsafe (selected_feeds allow bundles)),
            aborted = None, exit_code = 1\<rparr>"
  using assms by (simp add: run_pipeline_cases Let_def)

lemma run_pipeline_depends:
  assumes "fst (run_feeds unsafe (selected_feeds allow bs)) =
           fst (run_feeds unsafe (selected_feeds allow bs'))"
  shows "written (run_pipeline unsafe allow bs) = written (run_pipeline unsafe allow bs')"
    and "exit_code (run_pipeline unsafe allow bs) = exit_code (run_pipeline unsafe allow bs')"
  using assms by (simp_all add: run_pipeline_cases Let_def split: sum.splits)

lemma load_bundle_of: "load_feed (bundle_of code loaded) = Inr loaded"
  by (cases "calendar_table loaded")
     (simp_all add: load_feed_def bundle_of_def required_file_def optional_file_def)

lemma branch_loaded_valid: "validate_feed False branch_loaded = Inr branch_loaded"
  by (simp add: validate_feed_def missing_columns_def missing_in_def required_columns_def
      out_of_range_def branch_loaded_def agency_columns_def stops_columns_def
      routes_columns_def trips_columns_def stop_times_columns_def)

lemma metro_loaded_valid: "validate_feed False metro_loaded = Inr metro_loaded"
  by (simp add: validate_feed_def missing_columns_def missing_in_def required_columns_def
      out_of_range_def metro_loaded_def agency_columns_def stops_columns_def
      routes_columns_def trips_columns_def stop_times_columns_def)

lemma example_attempts:
  "attempt_feed False (bundle_of ''TGSRTC'' branch_loaded) = Inr branch_loaded"
  "attempt_feed False (bundle_of ''HMRL'' metro_loaded) = Inr metro_loaded"
  "attempt_feed False no_lat_bundle = Inl (ValidationError ''stops.stop_lat'')"
  "attempt_feed False far_stop_bundle = Inl (ValidationError ''stops: X'')"
  "attempt_feed False no_trips_bundle = Inl (FeedLoadError ''trips'')"
  by (simp_all add: attempt_feed_def load_bundle_of branch_loaded_valid metro_loaded_valid)
     (simp_all add: no_lat_bundle_def far_stop_bundle_def no_trips_bundle_def bundle_of_def
      load_feed_def required_file_def optional_file_def validate_feed_def missing_columns_def
      missing_in_def required_columns_def out_of_range_def metro_loaded_def
      agency_columns_def stops_columns_def routes_columns_def trips_columns_def
      stop_times_columns_def)

lemma example_bundle_agencies:
  "bundle_agency (bundle_of code loaded) = code"
  "bundle_agency no_lat_bundle = ''MMTS''"
  "bundle_agency far_stop_bundle = ''MMTS''"
  "bundle_agency no_trips_bundle = ''HMRL''"
  by (simp_all add: bundle_of_def no_lat_bundle_def far_stop_bundle_def no_trips_bundle_def)

section \<open>Claims about the preprocessing pipeline\<close>

text \<open>
  C1, as stated: a route is among a stop's routes if and only if the stop is listed
  under the route in the route-to-stops index. On the bus feed \<open>branch_loaded\<close>
  the run succeeds, stop D has route 10 among its routes (a trip of route 10 calls
  there), and D is not listed under route 10, whose stops are those of its
  representative trip.
\<close>

theorem index_inverse_counterexample:
  "pipeline_output [(''TGSRTC'', branch_loaded)] = Inr branch_artifacts \<and>
   \<lparr>stop_ident = ''TGSRTC_D'', stop_label = ''D'', route_ids = [''TGSRTC_10'']\<rparr>
     \<in> set (stop_collection branch_artifacts) \<and>
   ''TGSRTC_10'' \<in> set (route_ids \<lparr>stop_ident = ''TGSRTC_D'', stop_label = ''D'',
                                   route_ids = [''TGSRTC_10'']\<rparr>) \<and>
   ''TGSRTC_D'' \<notin> set (stop_ids_of branch_artifacts ''TGSRTC_10'')"
  using output_branch
  by (simp add: branch_artifacts_def stop_ids_of_def)

text \<open>
  C1, amended. For the feeds of agencies with pairwise distinct codes that contain no
  underscore (as HMRL, MMTS and TGSRTC), the assembly succeeds and in its output: the
  stop-to-routes index maps the id of every stop of the collection to that stop's
  routes; every stop of the collection that is listed under a route in the
  route-to-stops index has that route among its routes; every route among a stop's
  routes has an entry in the route-to-stops index; and, on the side of the routes,
  every id listed under a route is the id of a stop of the collection that has the
  route among its routes. (The converse of the second part is not claimed: a stop
  served only by trips other than the route's representative trip is not listed under
  the route.)
\<close>

theorem listed_stops_are_served:
  "distinct (map fst agencies) \<Longrightarrow>
   \<forall>code \<in> set (map fst agencies). CHR ''_'' \<notin> set code \<Longrightarrow>
   \<exists>out. pipeline_output agencies = Inr out \<and>
     (\<forall>s \<in> set (stop_collection out).
        map_of (stop_to_routes out) (stop_ident s) = Some (route_ids s) \<and>
        (\<forall>r. stop_ident s \<in> set (stop_ids_of out r) \<longrightarrow> r \<in> set (route_ids s)) \<and>
        (\<forall>r \<in> set (route_ids s). r \<in> fst ` set (route_to_stops out))) \<and>
     (\<forall>r x. x \<in> set (stop_ids_of out r) \<longrightarrow>
        (\<exists>s \<in> set (stop_collection out). stop_ident s = x \<and> r \<in> set (route_ids s)))"
proof -
  assume d: "distinct (map fst agencies)"
    and u: "\<forall>code \<in> set (map fst agencies). CHR ''_'' \<notin> set code"
  let ?feeds = "map (\<lambda>(code, loaded). namespace_feed code loaded) agencies"
  have sep: "separate_stop_ids ?feeds" using d u by (rule separate_namespaced)
  obtain out where out: "assemble (map process_feed ?feeds) = Inr out"
    using assemble_processed [of ?feeds] by blast
  note o = assemble_Inr [OF out]
  have index: "map_of (stop_to_routes out) (stop_ident s) = Some (route_ids s)"
    if s: "s \<in> set (stop_collection out)" for s
  proof -
    from s obtain y where y: "map_of (stop_to_routes out) (stop_ident s) = Some y"
      unfolding o(3) using map_of_pairs_dom [of s "stop_collection out" stop_ident route_ids]
      by blast
    then obtain s' where "s' \<in> set (stop_collection out)" "stop_ident s' = stop_ident s"
      "route_ids s' = y"
      unfolding o(3) using map_of_pairs_Some by fastforce
    with s have "y = route_ids s"
      using merged_stop_routes [OF sep, of s s'] by (simp add: o(1))
    with y show ?thesis by simp
  qed
  have served: "r \<in> set (route_ids s)"
    if s: "s \<in> set (stop_collection out)" and l: "stop_ident s \<in> set (stop_ids_of out r)" for s r
  proof -
    from listed_route [OF o(4) l] obtain r' where r': "r' \<in> set (route_collection out)"
      "route_ident r' = r" "stop_ident s \<in> ref_stop_id ` set (ordered_stops r')"
      by blast
    with s have "route_ident r' \<in> set (route_ids s)"
      using merged_stop_served [OF sep, of s r'] by (simp add: o(1) o(2))
    with r'(2) show ?thesis by simp
  qed
  have entry: "r \<in> fst ` set (route_to_stops out)"
    if s: "s \<in> set (stop_collection out)" and r: "r \<in> set (route_ids s)" for s r
  proof -
    from o(5) s r have "r \<in> route_ident ` set (route_collection out)"
      unfolding integrity_ok_def list_all_iff by auto
    then show ?thesis unfolding o(4) by force
  qed
  have exists: "\<exists>s \<in> set (stop_collection out). stop_ident s = x \<and> r \<in> set (route_ids s)"
    if l: "x \<in> set (stop_ids_of out r)" for r x
  proof -
    from listed_route [OF o(4) l] obtain r' where r': "r' \<in> set (route_collection out)"
      "route_ident r' = r" "x \<in> ref_stop_id ` set (ordered_stops r')"
      by blast
    from merged_listed_exists [of r' ?feeds x] r' show ?thesis
      by (simp add: o(1) o(2))
  qed
  from out have "pipeline_output agencies = Inr out" by (simp add: pipeline_output_assemble)
  with index served entry exists show ?thesis by blast
qed

theorem listed_stops_are_served_witness:
  "distinct (map fst [(''TGSRTC'', branch_loaded), (''HMRL'', metro_loaded)]) \<and>
   CHR ''_'' \<notin> set ''TGSRTC'' \<and> CHR ''_'' \<notin> set ''HMRL'' \<and>
   pipeline_output [(''TGSRTC'', branch_loaded), (''HMRL'', metro_loaded)] = Inr both_artifacts \<and>
   map_of (stop_to_routes both_artifacts) ''TGSRTC_D'' = Some [''TGSRTC_10''] \<and>
   ''TGSRTC_B'' \<in> set (stop_ids_of both_artifacts ''TGSRTC_10'') \<and>
   ''TGSRTC_10'' \<in> set (route_ids \<lparr>stop_ident = ''TGSRTC_B'', stop_label = ''B'',
                                   route_ids = [''TGSRTC_10'']\<rparr>) \<and>
   ''HMRL_Y'' \<in> set (stop_ids_of both_artifacts ''HMRL_RED'') \<and>
   ''HMRL_RED'' \<in> set (route_ids \<lparr>stop_ident = ''HMRL_Y'', stop_label = ''Y'',
                                  route_ids = [''HMRL_RED'']\<rparr>) \<and>
   ''HMRL_RED'' \<in> fst ` set (route_to_stops both_artifacts)"
  using listed_stops_are_served [of "[(''TGSRTC'', branch_loaded), (''HMRL'', metro_loaded)]"]
    output_both
  by (simp add: both_artifacts_def branch_artifacts_def stop_ids_of_def)

text \<open>
  C3. A timetable array is the labels of its bucket's departures in the order of their
  original (pre-modulo) values, each entry being a collected departure with that
  value and its label; and for two trips of one route that leave one stop at 23:50:00
  and 25:10:00 on a weekday service, the weekday array is "23:50", "01:10".
\<close>

theorem timetable_ordered_by_original_value:
  "weekday (timetable_entry feed stop route) =
     map snd (bucket_entries (departures feed stop route Weekday)) \<and>
   weekend (timetable_entry feed stop route) =
     map snd (bucket_entries (departures feed stop route Weekend)) \<and>
   sorted (map fst (bucket_entries raw)) \<and>
   set (bucket_entries raw) \<subseteq> set (collect_times raw) \<and>
   departures late_feed ''HMRL_MGBS'' ''HMRL_RED'' Weekday = [''25:10:00'', ''23:50:00''] \<and>
   collect_times [''25:10:00'', ''23:50:00''] = [(90600, ''01:10''), (85800, ''23:50'')] \<and>
   timetable_entry late_feed ''HMRL_MGBS'' ''HMRL_RED'' =
     \<lparr>weekday = [''23:50'', ''01:10''], weekend = []\<rparr>"
  using sorted_bucket_entries [of raw] bucket_entries_collected [of raw]
    late_feed_timetable late_times_collected
  by (simp add: timetable_entry_def bucket_times_def)
     (simp add: late_feed_def departures_def runs_on_def)

theorem timetable_ordered_by_original_value_witness:
  "sorted (map fst (bucket_entries [''25:10:00'', ''23:50:00''])) \<and>
   weekday (timetable_entry late_feed ''HMRL_MGBS'' ''HMRL_RED'') = [''23:50'', ''01:10''] \<and>
   map snd (bucket_entries [''25:10:00'', ''23:50:00'']) = [''23:50'', ''01:10'']"
  using timetable_ordered_by_original_value
    [of late_feed "''HMRL_MGBS''" "''HMRL_RED''" "[''25:10:00'', ''23:50:00'']"]
  by (simp add: bucket_entries_def late_times_collected)

text \<open>
  C7. The run, from the loading of the feeds to the Output Assembler, exits with code 0
  exactly when at least one of the feeds it processes succeeded (loaded and passed
  validation), and with a non-zero code exactly when none did; it is never aborted by
  the assembler; what it writes is the assembly of the feeds that succeeded, and the
  feeds that failed are reported; and a feed that fails takes away its own
  contribution only: with it and without it the run writes the same and exits the
  same.
\<close>

theorem exit_code_partial_success:
  "(exit_code (run_pipeline unsafe allow bundles) = 0) =
     (\<exists>b \<in> set (selected_feeds allow bundles). feed_succeeds unsafe b) \<and>
   (exit_code (run_pipeline unsafe allow bundles) \<noteq> 0) =
     (\<forall>b \<in> set (selected_feeds allow bundles). \<not> feed_succeeds unsafe b) \<and>
   aborted (run_pipeline unsafe allow bundles) = None \<and>
   (case written (run_pipeline unsafe allow bundles) of
      None \<Rightarrow> \<forall>b \<in> set (selected_feeds allow bundles). \<not> feed_succeeds unsafe b
    | Some out \<Rightarrow>
        pipeline_output (fst (run_feeds unsafe (selected_feeds allow bundles))) = Inr out) \<and>
   map fst (fst (run_feeds unsafe (selected_feeds allow bundles))) =
     map bundle_agency (filter (feed_succeeds unsafe) (selected_feeds allow bundles)) \<and>
   map fst (failures (run_pipeline unsafe allow bundles)) =
     map bundle_agency (filter (\<lambda>b. \<not> feed_succeeds unsafe b) (selected_feeds allow bundles)) \<and>
   (\<not> feed_succeeds unsafe bad \<longrightarrow>
      written (run_pipeline unsafe allow (bs1 @ bad # bs2)) =
        written (run_pipeline unsafe allow (bs1 @ bs2)) \<and>
      exit_code (run_pipeline unsafe allow (bs1 @ bad # bs2)) =
        exit_code (run_pipeline unsafe allow (bs1 @ bs2)))"
proof (cases "fst (run_feeds unsafe (selected_feeds allow bundles)) = []")
  case True
  with run_feeds_nonempty [of unsafe "selected_feeds allow bundles"]
  have none: "\<forall>b \<in> set (selected_feeds allow bundles). \<not> feed_succeeds unsafe b" by simp
  from run_pipeline_fails [OF True] none
    run_feeds_passed [of unsafe "selected_feeds allow bundles"]
    run_feeds_failed [of unsafe "selected_feeds allow bundles"]
    run_pipeline_depends [OF selected_feeds_skip [of unsafe bad allow bs1 bs2]]
  show ?thesis by auto
next
  case False
  with run_feeds_nonempty [of unsafe "selected_feeds allow bundles"]
  have some: "\<exists>b \<in> set (selected_feeds allow bundles). feed_succeeds unsafe b" by simp
  from run_pipeline_succeeds [OF False] some
    run_feeds_passed [of unsafe "selected_feeds allow bundles"]
    run_feeds_failed [of unsafe "selected_feeds allow bundles"]
    run_pipeline_depends [OF selected_feeds_skip [of unsafe bad allow bs1 bs2]]
  show ?thesis by auto
qed

theorem exit_code_partial_success_witness:
  "feed_succeeds False (bundle_of ''TGSRTC'' branch_loaded) \<and>
   \<not> feed_succeeds False no_lat_bundle \<and>
   \<not> feed_succeeds False far_stop_bundle \<and>
   \<not> feed_succeeds False no_trips_bundle \<and>
   run_pipeline False None
     [bundle_of ''TGSRTC'' branch_loaded, no_lat_bundle, bundle_of ''HMRL'' metro_loaded] =
     \<lparr>written = Some both_artifacts,
      failures = [(''MMTS'', ValidationError ''stops.stop_lat'')],
      aborted = None, exit_code = 0\<rparr> \<and>
   written (run_pipeline False None
     [bundle_of ''TGSRTC'' branch_loaded, bundle_of ''HMRL'' metro_loaded]) = Some both_artifacts \<and>
   run_pipeline False None [far_stop_bundle, no_lat_bundle, no_trips_bundle] =
     \<lparr>written = None,
      failures = [(''MMTS'', ValidationError ''stops: X''),
                  (''MMTS'', ValidationError ''stops.stop_lat''),
                  (''HMRL'', FeedLoadError ''trips'')],
      aborted = None, exit_code = 1\<rparr>"
  using exit_code_partial_success
      [of False None
          "[bundle_of ''TGSRTC'' branch_loaded, no_lat_bundle, bundle_of ''HMRL'' metro_loaded]"
          no_lat_bundle "[bundle_of ''TGSRTC'' branch_loaded]" "[bundle_of ''HMRL'' metro_loaded]"]
    exit_code_partial_success
      [of False None "[far_stop_bundle, no_lat_bundle, no_trips_bundle]"
          far_stop_bundle "[]" "[no_lat_bundle, no_trips_bundle]"]
  by (simp add: run_pipeline_def selected_feeds_def feed_succeeds_def example_attempts
      example_bundle_agencies output_both)

end
